theory Spec2Isabelle
  imports Main "HOL-Library.Sublist" "HOL-Library.Code_Target_Numeral"
begin

section \<open>Data model of the upgrade service\<close>

text \<open>
  The service is \<^verbatim>\<open>UpgradeService\<close> of \<^verbatim>\<open>upgrade.service.ts\<close>. The repository holds
  three texts of it: the one built on fs-extra (first in the file), the one built on
  node:fs (second in the file, constants suffixed \<open>_nodefs\<close> below) and the one of the
  design notes (constants suffixed \<open>_doc\<close>), which differs from the first in the
  \<^verbatim>\<open>catch\<close> blocks of \<^verbatim>\<open>upgradeModule\<close> and \<^verbatim>\<open>getModulesStatus\<close> only. The list of
  configured modules (injected, read from \<^verbatim>\<open>modules.json\<close>, or written out in the class)
  is a parameter of every method. Strings are byte strings.
\<close>

datatype module_type = Frontend | Backend | Microfrontend

record module_config =
  name :: string
  repo :: string
  mtype :: module_type
  deployPath :: string
  buildCommand :: string
  branch :: "string option"

text \<open>
  A thrown value. \<open>OutputNotFound\<close> is the \<^verbatim>\<open>Error\<close> that \<^verbatim>\<open>deployBuild\<close> constructs
  itself (its message is the Chinese for "build output directory not found");
  \<open>SysError msg\<close> is whatever a library call or a child process rejects with.
\<close>

datatype error = OutputNotFound | SysError string

text \<open>
  The three message templates of \<^verbatim>\<open>UpgradeResult.message\<close>, which are Chinese text
  around one interpolated value: "module <name> is not configured",
  "upgrade succeeded, version: <version>" and (design notes only)
  "upgrade failed: <error.message>".
\<close>

datatype message = MsgNotConfigured string | MsgUpgraded string | MsgFailed error

record upgrade_result =
  success :: bool
  module :: string
  message :: message
  timestamp :: string
  version :: "string option"



text \<open>The interface \<^verbatim>\<open>PackageJson\<close>: only the field \<^verbatim>\<open>version\<close> is ever read.\<close>

record package_json =
  pkg_version :: "string option"

section \<open>The platform: file system, child processes, clock, logger\<close>

text \<open>
  What the logger and \<^verbatim>\<open>console.error\<close> are given: the start of a run, its success
  with the duration in milliseconds, its failure, a failed cleanup, and the error printed
  by \<^verbatim>\<open>getModulesStatus\<close>.
\<close>

datatype log_entry =
    LogStart string
  | LogSuccess string int
  | LogError string error
  | LogWarn string error
  | ConsoleError error

text \<open>
  The calls that leave the process, with their arguments: fs-extra's, node:fs's and
  \<^verbatim>\<open>execAsync\<close> (with its \<^verbatim>\<open>maxBuffer\<close> option when one is given).
\<close>

datatype call =
    CPathExists string
  | CEnsureDir string
  | CCopy string string
  | CEmptyDir string
  | CRemove string
  | CReadJson string
  | CStat string
  | CExec string "nat option"
  | CExistsSync string
  | CAccess string
  | CMkdir string
  | CCp string string
  | CRm string
  | CReadFile string

text \<open>
  The behaviour of the platform is a parameter: every library call is a function of an
  abstract world \<open>'w\<close>. A call that writes (and a child process) returns the new world
  and either a value or the error it throws; a call that only reads (\<^verbatim>\<open>access\<close>,
  \<^verbatim>\<open>readJson\<close>, \<^verbatim>\<open>readFile\<close>, \<^verbatim>\<open>stat\<close>) returns a value or an error;
  \<^verbatim>\<open>pathExists\<close> and \<^verbatim>\<open>existsSync\<close> never throw. \<open>fx_readJson\<close> stands for
  \<^verbatim>\<open>fs.readJson\<close> followed by the read of \<^verbatim>\<open>.version\<close> (which throws on a manifest
  that is \<^verbatim>\<open>null\<close>); \<open>json_parse\<close> likewise for \<^verbatim>\<open>JSON.parse\<close>. \<open>fs_stat\<close> returns
  \<^verbatim>\<open>stats.mtime.toISOString()\<close>.
\<close>

record 'w sys =
  clock_iso :: "'w \<Rightarrow> string"
  clock_ms :: "'w \<Rightarrow> int"
  sys_exec :: "string \<Rightarrow> nat option \<Rightarrow> 'w \<Rightarrow> (error + string) \<times> 'w"
  fx_pathExists :: "string \<Rightarrow> 'w \<Rightarrow> bool"
  fx_ensureDir :: "string \<Rightarrow> 'w \<Rightarrow> (error + unit) \<times> 'w"
  fx_copy :: "string \<Rightarrow> string \<Rightarrow> 'w \<Rightarrow> (error + unit) \<times> 'w"
  fx_emptyDir :: "string \<Rightarrow> 'w \<Rightarrow> (error + unit) \<times> 'w"
  fx_remove :: "string \<Rightarrow> 'w \<Rightarrow> (error + unit) \<times> 'w"
  fx_readJson :: "string \<Rightarrow> 'w \<Rightarrow> error + package_json"
  fs_stat :: "string \<Rightarrow> 'w \<Rightarrow> error + string"
  nf_existsSync :: "string \<Rightarrow> 'w \<Rightarrow> bool"
  nf_access :: "string \<Rightarrow> 'w \<Rightarrow> error + unit"
  nf_mkdir :: "string \<Rightarrow> 'w \<Rightarrow> (error + unit) \<times> 'w"
  nf_cp :: "string \<Rightarrow> string \<Rightarrow> 'w \<Rightarrow> (error + unit) \<times> 'w"
  nf_rm :: "string \<Rightarrow> 'w \<Rightarrow> (error + unit) \<times> 'w"
  nf_readFile :: "string \<Rightarrow> 'w \<Rightarrow> error + string"
  json_parse :: "string \<Rightarrow> error + package_json"

text \<open>
  The state a method runs in: the world, what has been logged, and the calls made so far.
\<close>

record 'w state =
  world :: 'w
  logs :: "log_entry list"
  calls :: "call list"

type_synonym ('w, 'a) io = "'w state \<Rightarrow> (error + 'a) \<times> 'w state"

definition ret :: "'a \<Rightarrow> ('w, 'a) io" where
  "ret x s = (Inr x, s)"

definition throw :: "error \<Rightarrow> ('w, 'a) io" where
  "throw e s = (Inl e, s)"

text \<open>\<^verbatim>\<open>const x = await m; f(x)\<close>: a rejection of \<open>m\<close> skips \<open>f\<close>.\<close>

definition andThen :: "('w, 'a) io \<Rightarrow> ('a \<Rightarrow> ('w, 'b) io) \<Rightarrow> ('w, 'b) io" where
  "andThen m f s = (case m s of (Inl e, s1) \<Rightarrow> (Inl e, s1) | (Inr x, s1) \<Rightarrow> f x s1)"

text \<open>\<^verbatim>\<open>try { m } catch (e) { h(e) }\<close>.\<close>

definition tryCatch :: "('w, 'a) io \<Rightarrow> (error \<Rightarrow> ('w, 'a) io) \<Rightarrow> ('w, 'a) io" where
  "tryCatch m h s = (case m s of (Inl e, s1) \<Rightarrow> h e s1 | (Inr x, s1) \<Rightarrow> (Inr x, s1))"

text \<open>
  \<^verbatim>\<open>try { m } finally { c }\<close>: \<open>c\<close> runs after \<open>m\<close> however \<open>m\<close> ended; the completion of
  \<open>m\<close> stands unless \<open>c\<close> itself throws.
\<close>

definition tryFinally :: "('w, 'a) io \<Rightarrow> ('w, unit) io \<Rightarrow> ('w, 'a) io" where
  "tryFinally m c s =
     (case m s of (r, s1) \<Rightarrow>
        (case c s1 of (Inl e, s2) \<Rightarrow> (Inl e, s2) | (Inr u, s2) \<Rightarrow> (r, s2)))"

definition perform :: "call \<Rightarrow> ('w \<Rightarrow> (error + 'a) \<times> 'w) \<Rightarrow> ('w, 'a) io" where
  "perform c f s =
     (case f (world s) of (r, w1) \<Rightarrow> (r, s\<lparr>world := w1, calls := calls s @ [c]\<rparr>))"

definition attempt :: "call \<Rightarrow> ('w \<Rightarrow> error + 'a) \<Rightarrow> ('w, 'a) io" where
  "attempt c f s = (f (world s), s\<lparr>calls := calls s @ [c]\<rparr>)"

definition observe :: "call \<Rightarrow> ('w \<Rightarrow> 'a) \<Rightarrow> ('w, 'a) io" where
  "observe c g s = (Inr (g (world s)), s\<lparr>calls := calls s @ [c]\<rparr>)"

definition logger :: "log_entry \<Rightarrow> ('w, unit) io" where
  "logger e s = (Inr (), s\<lparr>logs := logs s @ [e]\<rparr>)"

definition now_iso :: "'w sys \<Rightarrow> ('w, string) io" where
  "now_iso sys s = (Inr (clock_iso sys (world s)), s)"

definition now_ms :: "'w sys \<Rightarrow> ('w, int) io" where
  "now_ms sys s = (Inr (clock_ms sys (world s)), s)"

definition execAsync :: "'w sys \<Rightarrow> string \<Rightarrow> nat option \<Rightarrow> ('w, string) io" where
  "execAsync sys cmd maxBuffer = perform (CExec cmd maxBuffer) (sys_exec sys cmd maxBuffer)"

definition pathExists :: "'w sys \<Rightarrow> string \<Rightarrow> ('w, bool) io" where
  "pathExists sys p = observe (CPathExists p) (fx_pathExists sys p)"

definition ensureDir :: "'w sys \<Rightarrow> string \<Rightarrow> ('w, unit) io" where
  "ensureDir sys p = perform (CEnsureDir p) (fx_ensureDir sys p)"

definition copy :: "'w sys \<Rightarrow> string \<Rightarrow> string \<Rightarrow> ('w, unit) io" where
  "copy sys src dst = perform (CCopy src dst) (fx_copy sys src dst)"

definition emptyDir :: "'w sys \<Rightarrow> string \<Rightarrow> ('w, unit) io" where
  "emptyDir sys p = perform (CEmptyDir p) (fx_emptyDir sys p)"

definition remove :: "'w sys \<Rightarrow> string \<Rightarrow> ('w, unit) io" where
  "remove sys p = perform (CRemove p) (fx_remove sys p)"

definition readJson :: "'w sys \<Rightarrow> string \<Rightarrow> ('w, package_json) io" where
  "readJson sys p = attempt (CReadJson p) (fx_readJson sys p)"


definition existsSync :: "'w sys \<Rightarrow> string \<Rightarrow> ('w, bool) io" where
  "existsSync sys p = observe (CExistsSync p) (nf_existsSync sys p)"

definition access :: "'w sys \<Rightarrow> string \<Rightarrow> ('w, unit) io" where
  "access sys p = attempt (CAccess p) (nf_access sys p)"

definition mkdir :: "'w sys \<Rightarrow> string \<Rightarrow> ('w, unit) io" where
  "mkdir sys p = perform (CMkdir p) (nf_mkdir sys p)"

definition cp :: "'w sys \<Rightarrow> string \<Rightarrow> string \<Rightarrow> ('w, unit) io" where
  "cp sys src dst = perform (CCp src dst) (nf_cp sys src dst)"

definition rm :: "'w sys \<Rightarrow> string \<Rightarrow> ('w, unit) io" where
  "rm sys p = perform (CRm p) (nf_rm sys p)"

definition readFile :: "'w sys \<Rightarrow> string \<Rightarrow> ('w, string) io" where
  "readFile sys p = attempt (CReadFile p) (nf_readFile sys p)"

section \<open>Strings and paths\<close>

text \<open>\<^verbatim>\<open>a || b\<close> on strings: the empty string is falsy.\<close>

definition or_else :: "string \<Rightarrow> string \<Rightarrow> string" where
  "or_else a b = (if a = [] then b else a)"

text \<open>\<^verbatim>\<open>x || b\<close> where \<open>x\<close> may be \<^verbatim>\<open>undefined\<close>.\<close>

definition opt_or_else :: "string option \<Rightarrow> string \<Rightarrow> string" where
  "opt_or_else x b = (case x of None \<Rightarrow> b | Some a \<Rightarrow> or_else a b)"

text \<open>
  \<^verbatim>\<open>String.prototype.trim\<close>, on the white space a byte string can hold: tab, line feed,
  vertical tab, form feed, carriage return and space.
\<close>

definition is_space :: "char \<Rightarrow> bool" where
  "is_space c = (c \<in> set [CHR 0x09, CHR 0x0A, CHR 0x0B, CHR 0x0C, CHR 0x0D, CHR 0x20])"

definition trim :: "string \<Rightarrow> string" where
  "trim s = rev (dropWhile is_space (rev (dropWhile is_space s)))"

text \<open>\<^verbatim>\<open>s.replace(/:/g, "-")\<close>.\<close>

definition replace_colons :: "string \<Rightarrow> string" where
  "replace_colons s = map (\<lambda>c. if c = CHR '':'' then CHR ''-'' else c) s"

text \<open>
  \<^verbatim>\<open>path.join\<close> of Node (POSIX): the non-empty arguments are joined with a slash and the
  result is normalised: empty and \<^verbatim>\<open>.\<close> segments go, \<^verbatim>\<open>..\<close> removes the segment before it
  (and is kept at the front of a relative path), a trailing slash is kept.
\<close>

fun split_slash :: "string \<Rightarrow> string list" where
  "split_slash [] = [[]]"
| "split_slash (c # cs) =
     (if c = CHR ''/'' then [] # split_slash cs
      else (case split_slash cs of [] \<Rightarrow> [[c]] | seg # segs \<Rightarrow> (c # seg) # segs))"

fun join_slash :: "string list \<Rightarrow> string" where
  "join_slash [] = []"
| "join_slash [x] = x"
| "join_slash (x # y # ys) = x @ ''/'' @ join_slash (y # ys)"

fun normalize_segs :: "bool \<Rightarrow> string list \<Rightarrow> string list \<Rightarrow> string list" where
  "normalize_segs allowAboveRoot acc [] = rev acc"
| "normalize_segs allowAboveRoot acc (seg # segs) =
     (if seg = [] \<or> seg = ''.'' then normalize_segs allowAboveRoot acc segs
      else if seg = ''..'' then
        (case acc of
           [] \<Rightarrow> normalize_segs allowAboveRoot (if allowAboveRoot then [''..''] else []) segs
         | t # ts \<Rightarrow>
             if t = ''..''
             then normalize_segs allowAboveRoot (if allowAboveRoot then ''..'' # acc else acc) segs
             else normalize_segs allowAboveRoot ts segs)
      else normalize_segs allowAboveRoot (seg # acc) segs)"

definition path_normalize :: "string \<Rightarrow> string" where
  "path_normalize p =
     (if p = [] then ''.''
      else
        let isAbsolute = (hd p = CHR ''/'');
            trailingSeparator = (last p = CHR ''/'');
            q = join_slash (normalize_segs (\<not> isAbsolute) [] (split_slash p))
        in if q = [] then (if isAbsolute then ''/'' else if trailingSeparator then ''./'' else ''.'')
           else (if isAbsolute then ''/'' else []) @ q @ (if trailingSeparator then ''/'' else []))"

definition path_join :: "string list \<Rightarrow> string" where
  "path_join args =
     (let joined = join_slash (filter (\<lambda>a. a \<noteq> []) args)
      in if joined = [] then ''.'' else path_normalize joined)"

text \<open>
  \<^verbatim>\<open>path.dirname\<close> of Node (POSIX): trailing slashes and the last segment are dropped,
  up to the slash before it (which is not looked for at the first character).
\<close>

definition path_dirname :: "string \<Rightarrow> string" where
  "path_dirname p =
     (if p = [] then ''.''
      else
        let r = dropWhile (\<lambda>c. c \<noteq> CHR ''/'') (dropWhile (\<lambda>c. c = CHR ''/'') (rev p))
        in if length r \<le> 1 then (if hd p = CHR ''/'' then ''/'' else ''.'')
           else if hd p = CHR ''/'' \<and> length r = 2 then ''//''
           else rev (tl r))"

section \<open>The service built on fs-extra\<close>

text \<open>The temp root and the backup root are literals of the source.\<close>

definition tempDirOf :: "string \<Rightarrow> string" where
  "tempDirOf moduleName = path_join [''/tmp/upgrade'', moduleName]"

definition gitCloneOrPull :: "'w sys \<Rightarrow> module_config \<Rightarrow> string \<Rightarrow> ('w, unit) io" where
  "gitCloneOrPull sys m targetDir =
     (let repoUrl = ''https://github.com/'' @ repo m @ ''.git'';
          br = opt_or_else (branch m) ''main'';
          gitDir = path_join [targetDir, ''.git'']
      in andThen (pathExists sys gitDir) (\<lambda>ex.
           if ex
           then andThen (execAsync sys
                  (''cd '' @ targetDir @ '' && git fetch origin && git checkout '' @ br
                     @ '' && git pull origin '' @ br) None) (\<lambda>_. ret ())
           else andThen (execAsync sys
                  (''git clone --branch '' @ br @ '' '' @ repoUrl @ '' '' @ targetDir) None)
                  (\<lambda>_. ret ())))"

definition npmInstall :: "'w sys \<Rightarrow> string \<Rightarrow> ('w, unit) io" where
  "npmInstall sys dir =
     (let packageJson = path_join [dir, ''package.json'']
      in andThen (pathExists sys packageJson) (\<lambda>ex.
           if ex
           then andThen (execAsync sys (''cd '' @ dir @ '' && npm ci --no-audit --no-fund'') None)
                  (\<lambda>_. ret ())
           else ret ()))"

definition buildProject :: "'w sys \<Rightarrow> string \<Rightarrow> string \<Rightarrow> ('w, unit) io" where
  "buildProject sys dir cmd =
     andThen (execAsync sys (''cd '' @ dir @ '' && '' @ cmd) (Some (1024 * 1024 * 10)))
       (\<lambda>_. ret ())"

definition backupCurrent :: "'w sys \<Rightarrow> string \<Rightarrow> string \<Rightarrow> ('w, unit) io" where
  "backupCurrent sys dp moduleName =
     andThen (pathExists sys dp) (\<lambda>ex.
       if ex
       then andThen (now_iso sys) (\<lambda>t.
              copy sys dp (path_join [''/var/www/backups'', moduleName, replace_colons t]))
       else ret ())"

text \<open>
  The first half of \<^verbatim>\<open>deployBuild\<close> finds the build output. In the loop over
  \<^verbatim>\<open>possibleDirs\<close> the first candidate that exists is the build output and ends the loop;
  \<^verbatim>\<open>buildOutput\<close> keeps its initial value, the empty string, when none exists.
\<close>

fun probeDirs :: "'w sys \<Rightarrow> string \<Rightarrow> string list \<Rightarrow> ('w, string) io" where
  "probeDirs sys sourceDir [] = ret []"
| "probeDirs sys sourceDir (d # ds) =
     andThen (pathExists sys (path_join [sourceDir, d])) (\<lambda>ex.
       if ex then ret (path_join [sourceDir, d]) else probeDirs sys sourceDir ds)"

definition possibleDirs :: "string list" where
  "possibleDirs = [''dist'', ''build'', ''out'', ''public'']"

definition findBuildOutput :: "'w sys \<Rightarrow> string \<Rightarrow> module_type \<Rightarrow> ('w, string) io" where
  "findBuildOutput sys sourceDir ty =
     (if ty = Frontend \<or> ty = Microfrontend
      then probeDirs sys sourceDir possibleDirs
      else andThen (pathExists sys (path_join [sourceDir, ''dist''])) (\<lambda>ex.
             ret (if ex then path_join [sourceDir, ''dist''] else sourceDir)))"

text \<open>
  The second half of \<^verbatim>\<open>deployBuild\<close>: the target directory is emptied (or created) and
  the build output is copied into it.
\<close>

definition replaceTarget :: "'w sys \<Rightarrow> string \<Rightarrow> string \<Rightarrow> ('w, unit) io" where
  "replaceTarget sys buildOutput targetDir =
     andThen (pathExists sys targetDir) (\<lambda>ex.
       andThen (if ex then emptyDir sys targetDir else ensureDir sys targetDir) (\<lambda>_.
         copy sys buildOutput targetDir))"

definition deployBuild ::
  "'w sys \<Rightarrow> string \<Rightarrow> string \<Rightarrow> module_type \<Rightarrow> ('w, unit) io" where
  "deployBuild sys sourceDir targetDir ty =
     andThen (findBuildOutput sys sourceDir ty) (\<lambda>buildOutput.
       if buildOutput = [] then throw OutputNotFound
       else replaceTarget sys buildOutput targetDir)"

definition gitVersionCommand :: "string \<Rightarrow> string" where
  "gitVersionCommand dir =
     ''cd '' @ dir @ '' && git describe --tags --abbrev=0 || git rev-parse --short HEAD''"

definition getVersion :: "'w sys \<Rightarrow> string \<Rightarrow> ('w, string) io" where
  "getVersion sys dir =
     tryCatch
       (andThen (pathExists sys (path_join [dir, ''package.json''])) (\<lambda>ex.
          if ex
          then andThen (readJson sys (path_join [dir, ''package.json''])) (\<lambda>pkg.
                 ret (opt_or_else (pkg_version pkg) ''unknown''))
          else andThen (execAsync sys (gitVersionCommand dir) None) (\<lambda>stdout.
                 ret (trim stdout))))
       (\<lambda>_. ret ''unknown'')"









definition cleanupTemp :: "'w sys \<Rightarrow> string \<Rightarrow> ('w, unit) io" where
  "cleanupTemp sys tempDir =
     tryCatch (remove sys tempDir) (\<lambda>e. logger (LogWarn tempDir e))"

text \<open>The body of the \<^verbatim>\<open>try\<close> block of \<^verbatim>\<open>upgradeModule\<close>, steps 1 to 7 and the result.\<close>

definition upgradeSteps ::
  "'w sys \<Rightarrow> module_config \<Rightarrow> string \<Rightarrow> string \<Rightarrow> int \<Rightarrow> ('w, upgrade_result) io" where
  "upgradeSteps sys m moduleName tempDir startTime =
     andThen (logger (LogStart moduleName)) (\<lambda>_.
     andThen (ensureDir sys tempDir) (\<lambda>_.
     andThen (gitCloneOrPull sys m tempDir) (\<lambda>_.
     andThen (npmInstall sys tempDir) (\<lambda>_.
     andThen (buildProject sys tempDir (buildCommand m)) (\<lambda>_.
     andThen (backupCurrent sys (deployPath m) moduleName) (\<lambda>_.
     andThen (deployBuild sys tempDir (deployPath m) (mtype m)) (\<lambda>_.
     andThen (getVersion sys tempDir) (\<lambda>v.
     andThen (now_ms sys) (\<lambda>endTime.
     andThen (logger (LogSuccess moduleName (endTime - startTime))) (\<lambda>_.
     andThen (now_iso sys) (\<lambda>t.
       ret \<lparr>success = True, module = moduleName, message = MsgUpgraded v,
            timestamp = t, version = Some v\<rparr>)))))))))))"

definition notConfigured :: "'w sys \<Rightarrow> string \<Rightarrow> ('w, upgrade_result) io" where
  "notConfigured sys moduleName =
     andThen (now_iso sys) (\<lambda>t.
       ret \<lparr>success = False, module = moduleName, message = MsgNotConfigured moduleName,
            timestamp = t, version = None\<rparr>)"

definition upgradeModule ::
  "'w sys \<Rightarrow> module_config list \<Rightarrow> string \<Rightarrow> ('w, upgrade_result) io" where
  "upgradeModule sys modules moduleName =
     (case find (\<lambda>m. name m = moduleName) modules of
        None \<Rightarrow> notConfigured sys moduleName
      | Some m \<Rightarrow>
          andThen (now_ms sys) (\<lambda>startTime.
            tryFinally
              (tryCatch (upgradeSteps sys m moduleName (tempDirOf moduleName) startTime)
                 (\<lambda>e. andThen (logger (LogError moduleName e)) (\<lambda>_. throw e)))
              (cleanupTemp sys (tempDirOf moduleName))))"

text \<open>
  \<^verbatim>\<open>moduleNames\<close> is optional: when it is given, the configured modules whose name it
  includes are kept, in the configured order.
\<close>

definition modulesToUpgrade :: "module_config list \<Rightarrow> string list option \<Rightarrow> module_config list" where
  "modulesToUpgrade modules moduleNames =
     (case moduleNames of
        None \<Rightarrow> modules
      | Some names \<Rightarrow> filter (\<lambda>m. name m \<in> set names) modules)"

text \<open>The \<^verbatim>\<open>for\<close> loop of \<^verbatim>\<open>batchUpgrade\<close>, with \<^verbatim>\<open>results\<close> as accumulator.\<close>

fun batchLoop ::
  "'w sys \<Rightarrow> module_config list \<Rightarrow> module_config list \<Rightarrow> upgrade_result list
     \<Rightarrow> ('w, upgrade_result list) io" where
  "batchLoop sys modules [] results = ret results"
| "batchLoop sys modules (m # ms) results =
     andThen (upgradeModule sys modules (name m)) (\<lambda>result.
       batchLoop sys modules ms (results @ [result]))"

definition batchUpgrade ::
  "'w sys \<Rightarrow> module_config list \<Rightarrow> string list option \<Rightarrow> ('w, upgrade_result list) io" where
  "batchUpgrade sys modules moduleNames =
     batchLoop sys modules (modulesToUpgrade modules moduleNames) []"




section \<open>The service built on node:fs\<close>

text \<open>
  \<^verbatim>\<open>buildProject\<close>, \<^verbatim>\<open>getGitLatestVersion\<close> and \<^verbatim>\<open>getLastModifiedTime\<close> are the same
  text as above and are shared.
\<close>

definition gitCloneOrPull_nodefs :: "'w sys \<Rightarrow> module_config \<Rightarrow> string \<Rightarrow> ('w, unit) io" where
  "gitCloneOrPull_nodefs sys m targetDir =
     (let repoUrl = ''https://github.com/'' @ repo m @ ''.git'';
          br = opt_or_else (branch m) ''main'';
          gitDir = path_join [targetDir, ''.git'']
      in andThen (existsSync sys gitDir) (\<lambda>ex.
           if ex
           then andThen (execAsync sys
                  (''cd '' @ targetDir @ '' && git fetch origin && git checkout '' @ br
                     @ '' && git pull origin '' @ br) None) (\<lambda>_. ret ())
           else andThen (execAsync sys
                  (''git clone --branch '' @ br @ '' '' @ repoUrl @ '' '' @ targetDir) None)
                  (\<lambda>_. ret ())))"

definition npmInstall_nodefs :: "'w sys \<Rightarrow> string \<Rightarrow> ('w, unit) io" where
  "npmInstall_nodefs sys dir =
     (let packageJson = path_join [dir, ''package.json'']
      in tryCatch
           (andThen (access sys packageJson) (\<lambda>_.
            andThen (execAsync sys (''cd '' @ dir @ '' && npm ci --no-audit --no-fund'') None)
              (\<lambda>_. ret ())))
           (\<lambda>_. ret ()))"

definition backupCurrent_nodefs :: "'w sys \<Rightarrow> string \<Rightarrow> string \<Rightarrow> ('w, unit) io" where
  "backupCurrent_nodefs sys dp moduleName =
     tryCatch
       (andThen (access sys dp) (\<lambda>_.
        andThen (now_iso sys) (\<lambda>t.
        andThen (mkdir sys
            (path_dirname (path_join [''/var/www/backups'', moduleName, replace_colons t])))
          (\<lambda>_. cp sys dp (path_join [''/var/www/backups'', moduleName, replace_colons t])))))
       (\<lambda>_. ret ())"

fun probeDirs_nodefs :: "'w sys \<Rightarrow> string \<Rightarrow> string list \<Rightarrow> ('w, string) io" where
  "probeDirs_nodefs sys sourceDir [] = ret []"
| "probeDirs_nodefs sys sourceDir (d # ds) =
     andThen
       (tryCatch (andThen (access sys (path_join [sourceDir, d])) (\<lambda>_. ret True))
          (\<lambda>_. ret False))
       (\<lambda>found. if found then ret (path_join [sourceDir, d])
                 else probeDirs_nodefs sys sourceDir ds)"

definition findBuildOutput_nodefs :: "'w sys \<Rightarrow> string \<Rightarrow> module_type \<Rightarrow> ('w, string) io" where
  "findBuildOutput_nodefs sys sourceDir ty =
     (if ty = Frontend \<or> ty = Microfrontend
      then probeDirs_nodefs sys sourceDir possibleDirs
      else tryCatch
             (andThen (access sys (path_join [sourceDir, ''dist''])) (\<lambda>_.
                ret (path_join [sourceDir, ''dist''])))
             (\<lambda>_. ret sourceDir))"

definition replaceTarget_nodefs :: "'w sys \<Rightarrow> string \<Rightarrow> string \<Rightarrow> ('w, unit) io" where
  "replaceTarget_nodefs sys buildOutput targetDir =
     andThen
       (tryCatch (andThen (access sys targetDir) (\<lambda>_. rm sys targetDir)) (\<lambda>_. ret ()))
       (\<lambda>_. andThen (mkdir sys targetDir) (\<lambda>_. cp sys buildOutput targetDir))"

definition deployBuild_nodefs ::
  "'w sys \<Rightarrow> string \<Rightarrow> string \<Rightarrow> module_type \<Rightarrow> ('w, unit) io" where
  "deployBuild_nodefs sys sourceDir targetDir ty =
     andThen (findBuildOutput_nodefs sys sourceDir ty) (\<lambda>buildOutput.
       if buildOutput = [] then throw OutputNotFound
       else replaceTarget_nodefs sys buildOutput targetDir)"

text \<open>\<^verbatim>\<open>JSON.parse(await fs.readFile(p, 'utf-8'))\<close>.\<close>

definition readPackageJson :: "'w sys \<Rightarrow> string \<Rightarrow> ('w, package_json) io" where
  "readPackageJson sys p =
     andThen (readFile sys p) (\<lambda>text.
       case json_parse sys text of Inl e \<Rightarrow> throw e | Inr pkg \<Rightarrow> ret pkg)"

definition getVersion_nodefs :: "'w sys \<Rightarrow> string \<Rightarrow> ('w, string) io" where
  "getVersion_nodefs sys dir =
     tryCatch
       (andThen (access sys (path_join [dir, ''package.json''])) (\<lambda>_.
        andThen (readPackageJson sys (path_join [dir, ''package.json''])) (\<lambda>pkg.
          ret (opt_or_else (pkg_version pkg) ''unknown''))))
       (\<lambda>_. tryCatch
              (andThen (execAsync sys (gitVersionCommand dir) None) (\<lambda>stdout.
                 ret (trim stdout)))
              (\<lambda>_. ret ''unknown''))"


definition cleanupTemp_nodefs :: "'w sys \<Rightarrow> string \<Rightarrow> ('w, unit) io" where
  "cleanupTemp_nodefs sys tempDir =
     tryCatch (rm sys tempDir) (\<lambda>e. logger (LogWarn tempDir e))"

definition upgradeSteps_nodefs ::
  "'w sys \<Rightarrow> module_config \<Rightarrow> string \<Rightarrow> string \<Rightarrow> int \<Rightarrow> ('w, upgrade_result) io" where
  "upgradeSteps_nodefs sys m moduleName tempDir startTime =
     andThen (logger (LogStart moduleName)) (\<lambda>_.
     andThen (mkdir sys tempDir) (\<lambda>_.
     andThen (gitCloneOrPull_nodefs sys m tempDir) (\<lambda>_.
     andThen (npmInstall_nodefs sys tempDir) (\<lambda>_.
     andThen (buildProject sys tempDir (buildCommand m)) (\<lambda>_.
     andThen (backupCurrent_nodefs sys (deployPath m) moduleName) (\<lambda>_.
     andThen (deployBuild_nodefs sys tempDir (deployPath m) (mtype m)) (\<lambda>_.
     andThen (getVersion_nodefs sys tempDir) (\<lambda>v.
     andThen (now_ms sys) (\<lambda>endTime.
     andThen (logger (LogSuccess moduleName (endTime - startTime))) (\<lambda>_.
     andThen (now_iso sys) (\<lambda>t.
       ret \<lparr>success = True, module = moduleName, message = MsgUpgraded v,
            timestamp = t, version = Some v\<rparr>)))))))))))"

definition upgradeModule_nodefs ::
  "'w sys \<Rightarrow> module_config list \<Rightarrow> string \<Rightarrow> ('w, upgrade_result) io" where
  "upgradeModule_nodefs sys modules moduleName =
     (case find (\<lambda>m. name m = moduleName) modules of
        None \<Rightarrow> notConfigured sys moduleName
      | Some m \<Rightarrow>
          andThen (now_ms sys) (\<lambda>startTime.
            tryFinally
              (tryCatch (upgradeSteps_nodefs sys m moduleName (tempDirOf moduleName) startTime)
                 (\<lambda>e. andThen (logger (LogError moduleName e)) (\<lambda>_. throw e)))
              (cleanupTemp_nodefs sys (tempDirOf moduleName))))"

fun batchLoop_nodefs ::
  "'w sys \<Rightarrow> module_config list \<Rightarrow> module_config list \<Rightarrow> upgrade_result list
     \<Rightarrow> ('w, upgrade_result list) io" where
  "batchLoop_nodefs sys modules [] results = ret results"
| "batchLoop_nodefs sys modules (m # ms) results =
     andThen (upgradeModule_nodefs sys modules (name m)) (\<lambda>result.
       batchLoop_nodefs sys modules ms (results @ [result]))"

definition batchUpgrade_nodefs ::
  "'w sys \<Rightarrow> module_config list \<Rightarrow> string list option \<Rightarrow> ('w, upgrade_result list) io" where
  "batchUpgrade_nodefs sys modules moduleNames =
     batchLoop_nodefs sys modules (modulesToUpgrade modules moduleNames) []"




section \<open>The service of the design notes\<close>

text \<open>
  The private methods are those of the fs-extra service. \<^verbatim>\<open>upgradeModule\<close> turns a
  caught error into a result, and \<^verbatim>\<open>getModulesStatus\<close> turns it into an entry whose
  status is \<^verbatim>\<open>error\<close>.
\<close>

definition upgradeModule_doc ::
  "'w sys \<Rightarrow> module_config list \<Rightarrow> string \<Rightarrow> ('w, upgrade_result) io" where
  "upgradeModule_doc sys modules moduleName =
     (case find (\<lambda>m. name m = moduleName) modules of
        None \<Rightarrow> notConfigured sys moduleName
      | Some m \<Rightarrow>
          andThen (now_ms sys) (\<lambda>startTime.
            tryFinally
              (tryCatch (upgradeSteps sys m moduleName (tempDirOf moduleName) startTime)
                 (\<lambda>e. andThen (logger (LogError moduleName e)) (\<lambda>_.
                      andThen (now_iso sys) (\<lambda>t.
                        ret \<lparr>success = False, module = moduleName, message = MsgFailed e,
                             timestamp = t, version = None\<rparr>))))
              (cleanupTemp sys (tempDirOf moduleName))))"

fun batchLoop_doc ::
  "'w sys \<Rightarrow> module_config list \<Rightarrow> module_config list \<Rightarrow> upgrade_result list
     \<Rightarrow> ('w, upgrade_result list) io" where
  "batchLoop_doc sys modules [] results = ret results"
| "batchLoop_doc sys modules (m # ms) results =
     andThen (upgradeModule_doc sys modules (name m)) (\<lambda>result.
       batchLoop_doc sys modules ms (results @ [result]))"

definition batchUpgrade_doc ::
  "'w sys \<Rightarrow> module_config list \<Rightarrow> string list option \<Rightarrow> ('w, upgrade_result list) io" where
  "batchUpgrade_doc sys modules moduleNames =
     batchLoop_doc sys modules (modulesToUpgrade modules moduleNames) []"




section \<open>A simulated platform\<close>

text \<open>
  A platform to run the service on: the world is the list of the paths that exist, a
  child process is given by the table \<open>ex\<close> (its result and the paths it creates), and
  \<open>bad\<close> tells which file-system calls are made to fail. Removing a path removes what
  lies under it.
\<close>

definition under :: "string \<Rightarrow> string \<Rightarrow> bool" where
  "under p q = (q = p \<or> prefix (p @ ''/'') q)"

definition simSys ::
  "(string \<Rightarrow> (error + string) \<times> string list) \<Rightarrow> (call \<Rightarrow> bool) \<Rightarrow> string list sys" where
  "simSys ex bad =
     \<lparr>clock_iso = (\<lambda>w. ''2024-01-01T00:00:00.000Z''),
      clock_ms = (\<lambda>w. 0),
      sys_exec = (\<lambda>cmd mb w. case ex cmd of (r, created) \<Rightarrow> (r, created @ w)),
      fx_pathExists = (\<lambda>p w. p \<in> set w),
      fx_ensureDir = (\<lambda>p w. if bad (CEnsureDir p) then (Inl (SysError ''EACCES''), w)
                               else (Inr (), p # w)),
      fx_copy = (\<lambda>src dst w. if bad (CCopy src dst) then (Inl (SysError ''ENOSPC''), w)
                                else (Inr (), dst # w)),
      fx_emptyDir = (\<lambda>p w. if bad (CEmptyDir p) then (Inl (SysError ''EACCES''), w)
                               else (Inr (), p # filter (\<lambda>q. \<not> under p q) w)),
      fx_remove = (\<lambda>p w. if bad (CRemove p) then (Inl (SysError ''EBUSY''), w)
                               else (Inr (), filter (\<lambda>q. \<not> under p q) w)),
      fx_readJson = (\<lambda>p w. if bad (CReadJson p) then Inl (SysError ''Unexpected token'')
                               else Inr \<lparr>pkg_version = Some ''1.0.0''\<rparr>),
      fs_stat = (\<lambda>p w. if p \<in> set w then Inr ''2024-01-01T00:00:00.000Z''
                               else Inl (SysError ''ENOENT'')),
      nf_existsSync = (\<lambda>p w. p \<in> set w),
      nf_access = (\<lambda>p w. if p \<in> set w then Inr () else Inl (SysError ''ENOENT'')),
      nf_mkdir = (\<lambda>p w. if bad (CMkdir p) then (Inl (SysError ''EACCES''), w)
                               else (Inr (), p # w)),
      nf_cp = (\<lambda>src dst w. if bad (CCp src dst) then (Inl (SysError ''ENOSPC''), w)
                                else (Inr (), dst # w)),
      nf_rm = (\<lambda>p w. if bad (CRm p) then (Inl (SysError ''EBUSY''), w)
                               else (Inr (), filter (\<lambda>q. \<not> under p q) w)),
      nf_readFile = (\<lambda>p w. if bad (CReadFile p) then Inl (SysError ''EISDIR'')
                               else Inr ''1.0.0''),
      json_parse = (\<lambda>t. if t = [] then Inl (SysError ''Unexpected end of JSON input'')
                          else Inr \<lparr>pkg_version = Some t\<rparr>)\<rparr>"

text \<open>A module \<open>n\<close> of repository \<open>o/n\<close>, deployed at \<open>/srv/n\<close>, on the default branch.\<close>

definition mk :: "string \<Rightarrow> module_type \<Rightarrow> module_config" where
  "mk n ty = \<lparr>name = n, repo = ''o/'' @ n, mtype = ty, deployPath = ''/srv/'' @ n,
     buildCommand = ''npm run build'', branch = None\<rparr>"

definition abc :: "module_config list" where
  "abc = [mk ''a'' Backend, mk ''b'' Backend, mk ''c'' Backend]"

text \<open>Every command succeeds with empty output, except the clone of module \<open>b\<close>.\<close>

definition cloneFails :: "string \<Rightarrow> (error + string) \<times> string list" where
  "cloneFails cmd =
     (if cmd = ''git clone --branch main https://github.com/o/b.git /tmp/upgrade/b''
      then (Inl (SysError ''exit 128''), []) else (Inr [], []))"



text \<open>
  The clone of module \<open>a\<close> brings a manifest, and \<^verbatim>\<open>npm ci\<close> in its workspace exits
  with an error.
\<close>

definition npmFails :: "string \<Rightarrow> (error + string) \<times> string list" where
  "npmFails cmd =
     (if cmd = ''git clone --branch main https://github.com/o/a.git /tmp/upgrade/a''
      then (Inr [], [''/tmp/upgrade/a/package.json''])
      else if cmd = ''cd /tmp/upgrade/a && npm ci --no-audit --no-fund''
      then (Inl (SysError ''npm ERR! exit 1''), [])
      else (Inr [], []))"

text \<open>No copy into the backup root succeeds; every other call does.\<close>

definition backupDiskFull :: "call \<Rightarrow> bool" where
  "backupDiskFull c =
     (case c of
        CCopy src dst \<Rightarrow> prefix ''/var/www/backups/'' dst
      | CCp src dst \<Rightarrow> prefix ''/var/www/backups/'' dst
      | _ \<Rightarrow> False)"


definition allGood :: "call \<Rightarrow> bool" where
  "allGood c = False"

definition start :: "string list \<Rightarrow> string list state" where
  "start w = \<lparr>world = w, logs = [], calls = []\<rparr>"

section \<open>The run of a configured module\<close>

text \<open>
  What \<^verbatim>\<open>upgradeModule\<close> does for a configured module before its \<^verbatim>\<open>finally\<close> block: it
  reads the start time and runs the \<^verbatim>\<open>try\<close> block under its \<^verbatim>\<open>catch\<close>. The three
  texts differ in the steps and in the \<^verbatim>\<open>catch\<close> block.
\<close>

definition pipeline :: "'w sys \<Rightarrow> module_config \<Rightarrow> string \<Rightarrow> ('w, upgrade_result) io" where
  "pipeline sys m n =
     andThen (now_ms sys) (\<lambda>startTime.
       tryCatch (upgradeSteps sys m n (tempDirOf n) startTime)
         (\<lambda>e. andThen (logger (LogError n e)) (\<lambda>_. throw e)))"

definition pipeline_nodefs ::
  "'w sys \<Rightarrow> module_config \<Rightarrow> string \<Rightarrow> ('w, upgrade_result) io" where
  "pipeline_nodefs sys m n =
     andThen (now_ms sys) (\<lambda>startTime.
       tryCatch (upgradeSteps_nodefs sys m n (tempDirOf n) startTime)
         (\<lambda>e. andThen (logger (LogError n e)) (\<lambda>_. throw e)))"

definition pipeline_doc :: "'w sys \<Rightarrow> module_config \<Rightarrow> string \<Rightarrow> ('w, upgrade_result) io" where
  "pipeline_doc sys m n =
     andThen (now_ms sys) (\<lambda>startTime.
       tryCatch (upgradeSteps sys m n (tempDirOf n) startTime)
         (\<lambda>e. andThen (logger (LogError n e)) (\<lambda>_.
              andThen (now_iso sys) (\<lambda>t.
                ret \<lparr>success = False, module = n, message = MsgFailed e,
                     timestamp = t, version = None\<rparr>))))"

section \<open>Probing for the build output\<close>

text \<open>
  For a test \<open>ex\<close> of existence and candidates \<open>ds\<close>: \<open>firstOf\<close> is the path of the
  first candidate that exists (the empty string when there is none), \<open>probed\<close> the
  candidates that are tested, up to and including that first one.
\<close>

definition probed :: "(string \<Rightarrow> bool) \<Rightarrow> string list \<Rightarrow> string list" where
  "probed ex ds = take (Suc (length (takeWhile (\<lambda>d. \<not> ex d) ds))) ds"

definition firstOf :: "(string \<Rightarrow> bool) \<Rightarrow> string \<Rightarrow> string list \<Rightarrow> string" where
  "firstOf ex sourceDir ds =
     (case find ex ds of None \<Rightarrow> [] | Some d \<Rightarrow> path_join [sourceDir, d])"

section \<open>Sequencing\<close>

lemma andThen_Inr_iff:
  "andThen m f s = (Inr y, s') \<longleftrightarrow> (\<exists>x s1. m s = (Inr x, s1) \<and> f x s1 = (Inr y, s'))"
  by (cases "m s") (auto simp: andThen_def split: sum.splits)

lemma andThen_Inl_iff:
  "andThen m f s = (Inl e, s') \<longleftrightarrow>
     m s = (Inl e, s') \<or> (\<exists>x s1. m s = (Inr x, s1) \<and> f x s1 = (Inl e, s'))"
  by (cases "m s") (auto simp: andThen_def split: sum.splits)

lemma andThen_fails: "m s = (Inl e, s1) \<Longrightarrow> andThen m f s = (Inl e, s1)"
  by (simp add: andThen_def)

lemma andThen_continues: "m s = (Inr x, s1) \<Longrightarrow> andThen m f s = f x s1"
  by (simp add: andThen_def)

section \<open>Unknown module names\<close>

lemma find_name_None: "n \<notin> name ` set modules \<Longrightarrow> find (\<lambda>m. name m = n) modules = None"
  by (auto simp: find_None_iff)

text \<open>
  C7. When no configured module has the requested name, each of the three texts of
  \<^verbatim>\<open>upgradeModule\<close> returns at once a result with \<open>success = False\<close>, stamped with the
  current time, and leaves the state as it was: the world is unchanged, no call to the
  file system or to a child process is made (so no workspace is created and no cleanup
  runs), and nothing is logged.
\<close>

theorem upgradeModule_unknown:
  assumes "n \<notin> name ` set modules"
  shows "upgradeModule sys modules n s =
           (Inr \<lparr>success = False, module = n, message = MsgNotConfigured n,
                 timestamp = clock_iso sys (world s), version = None\<rparr>, s)
       \<and> upgradeModule_nodefs sys modules n s = upgradeModule sys modules n s
       \<and> upgradeModule_doc sys modules n s = upgradeModule sys modules n s"
  using find_name_None [OF assms]
  by (simp add: upgradeModule_def upgradeModule_nodefs_def upgradeModule_doc_def
      notConfigured_def andThen_def now_iso_def ret_def)

theorem upgradeModule_unknown_witness:
  "''zz'' \<notin> name ` set abc
   \<and> upgradeModule (simSys cloneFails allGood) abc ''zz'' (start [''/srv/a'']) =
       (Inr \<lparr>success = False, module = ''zz'', message = MsgNotConfigured ''zz'',
             timestamp = ''2024-01-01T00:00:00.000Z'', version = None\<rparr>, start [''/srv/a''])"
proof -
  have h: "''zz'' \<notin> name ` set abc"
    by (simp add: abc_def mk_def)
  show ?thesis
    using h upgradeModule_unknown [OF h, of "simSys cloneFails allGood" "start [''/srv/a'']"]
    by (simp add: simSys_def start_def)
qed

section \<open>Cleanup of the workspace\<close>

lemma cleanupTemp_run:
  "cleanupTemp sys p s =
     (Inr (),
      s\<lparr>world := snd (fx_remove sys p (world s)),
        calls := calls s @ [CRemove p],
        logs := (case fst (fx_remove sys p (world s)) of
                   Inl e \<Rightarrow> logs s @ [LogWarn p e] | Inr u \<Rightarrow> logs s)\<rparr>)"
  by (simp add: cleanupTemp_def tryCatch_def remove_def perform_def logger_def
      split: prod.splits sum.splits)

lemma cleanupTemp_nodefs_run:
  "cleanupTemp_nodefs sys p s =
     (Inr (),
      s\<lparr>world := snd (nf_rm sys p (world s)),
        calls := calls s @ [CRm p],
        logs := (case fst (nf_rm sys p (world s)) of
                   Inl e \<Rightarrow> logs s @ [LogWarn p e] | Inr u \<Rightarrow> logs s)\<rparr>)"
  by (simp add: cleanupTemp_nodefs_def tryCatch_def rm_def perform_def logger_def
      split: prod.splits sum.splits)

lemma tryFinally_cleanupTemp:
  "tryFinally m (cleanupTemp sys p) s = (fst (m s), snd (cleanupTemp sys p (snd (m s))))"
  by (cases "m s") (simp add: tryFinally_def cleanupTemp_run)

lemma tryFinally_cleanupTemp_nodefs:
  "tryFinally m (cleanupTemp_nodefs sys p) s =
     (fst (m s), snd (cleanupTemp_nodefs sys p (snd (m s))))"
  by (cases "m s") (simp add: tryFinally_def cleanupTemp_nodefs_run)

lemma upgradeModule_configured:
  assumes "find (\<lambda>m. name m = n) modules = Some m"
  shows "upgradeModule sys modules n s =
           (fst (pipeline sys m n s),
            snd (cleanupTemp sys (tempDirOf n) (snd (pipeline sys m n s))))"
  using assms
  by (simp add: upgradeModule_def pipeline_def andThen_def now_ms_def tryFinally_cleanupTemp)

lemma upgradeModule_nodefs_configured:
  assumes "find (\<lambda>m. name m = n) modules = Some m"
  shows "upgradeModule_nodefs sys modules n s =
           (fst (pipeline_nodefs sys m n s),
            snd (cleanupTemp_nodefs sys (tempDirOf n) (snd (pipeline_nodefs sys m n s))))"
  using assms
  by (simp add: upgradeModule_nodefs_def pipeline_nodefs_def andThen_def now_ms_def
      tryFinally_cleanupTemp_nodefs)

lemma upgradeModule_doc_configured:
  assumes "find (\<lambda>m. name m = n) modules = Some m"
  shows "upgradeModule_doc sys modules n s =
           (fst (pipeline_doc sys m n s),
            snd (cleanupTemp sys (tempDirOf n) (snd (pipeline_doc sys m n s))))"
  using assms
  by (simp add: upgradeModule_doc_def pipeline_doc_def andThen_def now_ms_def
      tryFinally_cleanupTemp)

lemma simSys_remove_contract:
  "\<forall>p w w1. fx_remove (simSys ex bad) p w = (Inr (), w1)
      \<longrightarrow> \<not> fx_pathExists (simSys ex bad) p w1"
  by (auto simp: simSys_def under_def split: if_splits)

text \<open>
  C6. A run of \<^verbatim>\<open>upgradeModule\<close> for a configured module ends, on every exit path, with
  one call \<^verbatim>\<open>fs.remove\<close> on the module's workspace directory: the result \<open>r\<close> of the call
  (a result object or the error thrown) is the one the pipeline ended with in some state
  \<open>s1\<close>, and the final state is \<open>s1\<close> after that removal. A removal that throws adds a
  warning to the log and nothing else; it does not change \<open>r\<close>. When \<^verbatim>\<open>fs.remove\<close> keeps
  its contract (a path it removed without error does not exist afterwards) and the
  removal succeeds, the workspace directory does not exist when the call returns.
\<close>

theorem cleanup_on_every_exit:
  assumes cfg: "find (\<lambda>m. name m = n) modules = Some m"
      and run: "upgradeModule sys modules n s = (r, s')"
  shows "\<exists>s1. pipeline sys m n s = (r, s1)
            \<and> calls s' = calls s1 @ [CRemove (tempDirOf n)]
            \<and> world s' = snd (fx_remove sys (tempDirOf n) (world s1))
            \<and> logs s' = (case fst (fx_remove sys (tempDirOf n) (world s1)) of
                           Inl e \<Rightarrow> logs s1 @ [LogWarn (tempDirOf n) e] | Inr u \<Rightarrow> logs s1)
            \<and> ((\<forall>p w w1. fx_remove sys p w = (Inr (), w1) \<longrightarrow> \<not> fx_pathExists sys p w1)
                 \<longrightarrow> fst (fx_remove sys (tempDirOf n) (world s1)) = Inr ()
                 \<longrightarrow> \<not> fx_pathExists sys (tempDirOf n) (world s'))"
proof -
  obtain r1 s1 where p: "pipeline sys m n s = (r1, s1)"
    by (cases "pipeline sys m n s")
  from run have r: "r = r1" and s': "s' = snd (cleanupTemp sys (tempDirOf n) s1)"
    by (simp_all add: upgradeModule_configured [OF cfg] p)
  have w: "world s' = snd (fx_remove sys (tempDirOf n) (world s1))"
    by (simp add: s' cleanupTemp_run)
  have gone: "\<not> fx_pathExists sys (tempDirOf n) (world s')"
    if c: "\<forall>p w w1. fx_remove sys p w = (Inr (), w1) \<longrightarrow> \<not> fx_pathExists sys p w1"
      and ok: "fst (fx_remove sys (tempDirOf n) (world s1)) = Inr ()"
  proof -
    have "fx_remove sys (tempDirOf n) (world s1) = (Inr (), world s')"
      using ok w by (cases "fx_remove sys (tempDirOf n) (world s1)") simp
    with c show ?thesis by blast
  qed
  show ?thesis
    using p r w gone by (intro exI [of _ s1]) (simp add: s' cleanupTemp_run)
qed

theorem cleanup_on_every_exit_witness:
  "find (\<lambda>m. name m = ''b'') abc = Some (mk ''b'' Backend)
   \<and> fst (upgradeModule (simSys cloneFails allGood) abc ''b''
         (start [''/tmp/upgrade/b'', ''/tmp/upgrade/b/old'', ''/srv/b''])) =
       Inl (SysError ''exit 128'')
   \<and> fx_pathExists (simSys cloneFails allGood) (tempDirOf ''b'')
         (world (start [''/tmp/upgrade/b'', ''/tmp/upgrade/b/old'', ''/srv/b'']))
   \<and> \<not> fx_pathExists (simSys cloneFails allGood) (tempDirOf ''b'')
         (world (snd (upgradeModule (simSys cloneFails allGood) abc ''b''
            (start [''/tmp/upgrade/b'', ''/tmp/upgrade/b/old'', ''/srv/b'']))))"
proof -
  let ?sys = "simSys cloneFails allGood"
  let ?run = "upgradeModule ?sys abc ''b''
                (start [''/tmp/upgrade/b'', ''/tmp/upgrade/b/old'', ''/srv/b''])"
  have h1: "find (\<lambda>m. name m = ''b'') abc = Some (mk ''b'' Backend)"
    by (simp add: abc_def mk_def)
  have h2: "?run = (fst ?run, snd ?run)"
    by simp
  have r: "fst ?run = Inl (SysError ''exit 128'')"
    by code_simp
  have before: "fx_pathExists ?sys (tempDirOf ''b'')
         (world (start [''/tmp/upgrade/b'', ''/tmp/upgrade/b/old'', ''/srv/b'']))"
    by code_simp
  have ok: "fst (fx_remove ?sys p w) = Inr ()" for p w
    by (simp add: simSys_def allGood_def)
  from cleanup_on_every_exit [OF h1 h2] simSys_remove_contract [of cloneFails allGood] ok
  have "\<not> fx_pathExists ?sys (tempDirOf ''b'') (world (snd ?run))"
    by blast
  with h1 r before show ?thesis by blast
qed

text \<open>The node:fs service ends a run in the same way, with \<^verbatim>\<open>fs.rm\<close>.\<close>

lemma cleanup_on_every_exit_nodefs:
  assumes cfg: "find (\<lambda>m. name m = n) modules = Some m"
      and run: "upgradeModule_nodefs sys modules n s = (r, s')"
  shows "\<exists>s1. pipeline_nodefs sys m n s = (r, s1)
            \<and> calls s' = calls s1 @ [CRm (tempDirOf n)]
            \<and> world s' = snd (nf_rm sys (tempDirOf n) (world s1))
            \<and> logs s' = (case fst (nf_rm sys (tempDirOf n) (world s1)) of
                           Inl e \<Rightarrow> logs s1 @ [LogWarn (tempDirOf n) e] | Inr u \<Rightarrow> logs s1)"
proof -
  obtain r1 s1 where p: "pipeline_nodefs sys m n s = (r1, s1)"
    by (cases "pipeline_nodefs sys m n s")
  from run have "r = r1" and "s' = snd (cleanupTemp_nodefs sys (tempDirOf n) s1)"
    by (simp_all add: upgradeModule_nodefs_configured [OF cfg] p)
  with p show ?thesis
    by (intro exI [of _ s1]) (simp add: cleanupTemp_nodefs_run)
qed

section \<open>The result of one upgrade\<close>

lemma upgradeSteps_result:
  assumes "upgradeSteps sys m n tmp t0 s = (Inr res, s')"
  shows "success res \<and> module res = n \<and> (\<exists>v. version res = Some v \<and> message res = MsgUpgraded v)"
  using assms unfolding upgradeSteps_def
  by (auto simp: andThen_Inr_iff ret_def)

lemma upgradeSteps_nodefs_result:
  assumes "upgradeSteps_nodefs sys m n tmp t0 s = (Inr res, s')"
  shows "success res \<and> module res = n \<and> (\<exists>v. version res = Some v \<and> message res = MsgUpgraded v)"
  using assms unfolding upgradeSteps_nodefs_def
  by (auto simp: andThen_Inr_iff ret_def)

lemma rethrow_run:
  "andThen (now_ms sys) (\<lambda>t0. tryCatch (steps t0)
       (\<lambda>e. andThen (logger (LogError n e)) (\<lambda>_. throw e))) s =
     (case steps (clock_ms sys (world s)) s of
        (Inl e, s1) \<Rightarrow> (Inl e, s1\<lparr>logs := logs s1 @ [LogError n e]\<rparr>)
      | (Inr res, s1) \<Rightarrow> (Inr res, s1))"
  by (simp add: andThen_def now_ms_def tryCatch_def logger_def throw_def
      split: prod.splits sum.splits)

lemma pipeline_run:
  "pipeline sys m n s =
     (case upgradeSteps sys m n (tempDirOf n) (clock_ms sys (world s)) s of
        (Inl e, s1) \<Rightarrow> (Inl e, s1\<lparr>logs := logs s1 @ [LogError n e]\<rparr>)
      | (Inr res, s1) \<Rightarrow> (Inr res, s1))"
  unfolding pipeline_def by (rule rethrow_run)

lemma pipeline_nodefs_run:
  "pipeline_nodefs sys m n s =
     (case upgradeSteps_nodefs sys m n (tempDirOf n) (clock_ms sys (world s)) s of
        (Inl e, s1) \<Rightarrow> (Inl e, s1\<lparr>logs := logs s1 @ [LogError n e]\<rparr>)
      | (Inr res, s1) \<Rightarrow> (Inr res, s1))"
  unfolding pipeline_nodefs_def by (rule rethrow_run)

lemma pipeline_doc_run:
  "pipeline_doc sys m n s =
     (case upgradeSteps sys m n (tempDirOf n) (clock_ms sys (world s)) s of
        (Inl e, s1) \<Rightarrow>
          (Inr \<lparr>success = False, module = n, message = MsgFailed e,
                timestamp = clock_iso sys (world s1), version = None\<rparr>,
           s1\<lparr>logs := logs s1 @ [LogError n e]\<rparr>)
      | (Inr res, s1) \<Rightarrow> (Inr res, s1))"
  by (simp add: pipeline_doc_def andThen_def now_ms_def now_iso_def tryCatch_def logger_def
      ret_def split: prod.splits sum.splits)

lemma upgradeModule_fst:
  assumes "find (\<lambda>m. name m = n) modules = Some m"
  shows "fst (upgradeModule sys modules n s) =
           fst (upgradeSteps sys m n (tempDirOf n) (clock_ms sys (world s)) s)"
  by (simp add: upgradeModule_configured [OF assms] pipeline_run split: prod.splits sum.splits)

lemma upgradeModule_nodefs_fst:
  assumes "find (\<lambda>m. name m = n) modules = Some m"
  shows "fst (upgradeModule_nodefs sys modules n s) =
           fst (upgradeSteps_nodefs sys m n (tempDirOf n) (clock_ms sys (world s)) s)"
  by (simp add: upgradeModule_nodefs_configured [OF assms] pipeline_nodefs_run
      split: prod.splits sum.splits)



lemma upgradeModule_doc_fst:
  assumes "find (\<lambda>m. name m = n) modules = Some m"
  shows "fst (upgradeModule_doc sys modules n s) =
           (case upgradeSteps sys m n (tempDirOf n) (clock_ms sys (world s)) s of
              (Inl e, s1) \<Rightarrow>
                Inr \<lparr>success = False, module = n, message = MsgFailed e,
                     timestamp = clock_iso sys (world s1), version = None\<rparr>
            | (Inr res, s1) \<Rightarrow> Inr res)"
  by (simp add: upgradeModule_doc_configured [OF assms] pipeline_doc_run
      split: prod.splits sum.splits)




section \<open>Batches\<close>

lemma pair_fstI: "fst p = a \<Longrightarrow> p = (a, snd p)"
  by (cases p) simp

lemma find_name_Some:
  assumes "m \<in> set modules"
  obtains m' where "find (\<lambda>x. name x = name m) modules = Some m'"
  using assms by (cases "find (\<lambda>x. name x = name m) modules") (auto simp: find_None_iff)

lemma upgradeModule_success:
  assumes "m \<in> set modules" and "upgradeModule sys modules (name m) s = (Inr r, s')"
  shows "success r \<and> module r = name m"
proof -
  from assms(1) obtain m' where f: "find (\<lambda>x. name x = name m) modules = Some m'"
    by (rule find_name_Some)
  from assms(2) obtain s1 where
    "upgradeSteps sys m' (name m) (tempDirOf (name m)) (clock_ms sys (world s)) s = (Inr r, s1)"
    using upgradeModule_fst [OF f, of sys s] by (metis fst_conv prod.collapse)
  then show ?thesis
    by (blast dest: upgradeSteps_result)
qed

lemma upgradeModule_nodefs_success:
  assumes "m \<in> set modules" and "upgradeModule_nodefs sys modules (name m) s = (Inr r, s')"
  shows "success r \<and> module r = name m"
proof -
  from assms(1) obtain m' where f: "find (\<lambda>x. name x = name m) modules = Some m'"
    by (rule find_name_Some)
  from assms(2) obtain s1 where
    "upgradeSteps_nodefs sys m' (name m) (tempDirOf (name m)) (clock_ms sys (world s)) s
       = (Inr r, s1)"
    using upgradeModule_nodefs_fst [OF f, of sys s] by (metis fst_conv prod.collapse)
  then show ?thesis
    by (blast dest: upgradeSteps_nodefs_result)
qed

lemma batchLoop_results:
  assumes "set ms \<subseteq> set modules" and "batchLoop sys modules ms rs0 s = (Inr rs, s')"
  shows "\<exists>new. rs = rs0 @ new \<and> map module new = map name ms \<and> (\<forall>r\<in>set new. success r)"
  using assms
proof (induction ms arbitrary: rs0 s)
  case Nil
  then show ?case by (simp add: ret_def)
next
  case (Cons m ms)
  from Cons.prems(2) obtain r s1 where
    u: "upgradeModule sys modules (name m) s = (Inr r, s1)" and
    l: "batchLoop sys modules ms (rs0 @ [r]) s1 = (Inr rs, s')"
    by (auto simp: andThen_Inr_iff)
  from Cons.prems(1) have "m \<in> set modules" and sub: "set ms \<subseteq> set modules"
    by simp_all
  with u have r: "success r \<and> module r = name m"
    by (blast dest: upgradeModule_success)
  from Cons.IH [OF sub l] obtain new where
    "rs = (rs0 @ [r]) @ new" "map module new = map name ms" "\<forall>x\<in>set new. success x"
    by blast
  with r show ?case
    by (intro exI [of _ "r # new"]) simp
qed

lemma batchLoop_nodefs_results:
  assumes "set ms \<subseteq> set modules" and "batchLoop_nodefs sys modules ms rs0 s = (Inr rs, s')"
  shows "\<exists>new. rs = rs0 @ new \<and> map module new = map name ms \<and> (\<forall>r\<in>set new. success r)"
  using assms
proof (induction ms arbitrary: rs0 s)
  case Nil
  then show ?case by (simp add: ret_def)
next
  case (Cons m ms)
  from Cons.prems(2) obtain r s1 where
    u: "upgradeModule_nodefs sys modules (name m) s = (Inr r, s1)" and
    l: "batchLoop_nodefs sys modules ms (rs0 @ [r]) s1 = (Inr rs, s')"
    by (auto simp: andThen_Inr_iff)
  from Cons.prems(1) have "m \<in> set modules" and sub: "set ms \<subseteq> set modules"
    by simp_all
  with u have r: "success r \<and> module r = name m"
    by (blast dest: upgradeModule_nodefs_success)
  from Cons.IH [OF sub l] obtain new where
    "rs = (rs0 @ [r]) @ new" "map module new = map name ms" "\<forall>x\<in>set new. success x"
    by blast
  with r show ?case
    by (intro exI [of _ "r # new"]) simp
qed

lemma batchLoop_append:
  "batchLoop sys modules pre rs0 s = (Inr rs1, s1) \<Longrightarrow>
     batchLoop sys modules (pre @ rest) rs0 s = batchLoop sys modules rest rs1 s1"
proof (induction pre arbitrary: rs0 s)
  case Nil
  then show ?case by (simp add: ret_def)
next
  case (Cons m pre)
  from Cons.prems obtain r s0 where
    u: "upgradeModule sys modules (name m) s = (Inr r, s0)" and
    l: "batchLoop sys modules pre (rs0 @ [r]) s0 = (Inr rs1, s1)"
    by (auto simp: andThen_Inr_iff)
  show ?case
    using Cons.IH [OF l] u by (simp add: andThen_def)
qed

lemma batchLoop_nodefs_append:
  "batchLoop_nodefs sys modules pre rs0 s = (Inr rs1, s1) \<Longrightarrow>
     batchLoop_nodefs sys modules (pre @ rest) rs0 s = batchLoop_nodefs sys modules rest rs1 s1"
proof (induction pre arbitrary: rs0 s)
  case Nil
  then show ?case by (simp add: ret_def)
next
  case (Cons m pre)
  from Cons.prems obtain r s0 where
    u: "upgradeModule_nodefs sys modules (name m) s = (Inr r, s0)" and
    l: "batchLoop_nodefs sys modules pre (rs0 @ [r]) s0 = (Inr rs1, s1)"
    by (auto simp: andThen_Inr_iff)
  show ?case
    using Cons.IH [OF l] u by (simp add: andThen_def)
qed

lemma modulesToUpgrade_subset: "set (modulesToUpgrade modules names) \<subseteq> set modules"
  by (cases names) (auto simp: modulesToUpgrade_def)

lemma upgradeModule_doc_returns: "\<exists>r. fst (upgradeModule_doc sys modules n s) = Inr r \<and> module r = n"
proof (cases "find (\<lambda>m. name m = n) modules")
  case None
  then show ?thesis
    by (simp add: upgradeModule_doc_def notConfigured_def andThen_def now_iso_def ret_def)
next
  case (Some m)
  obtain x s1 where st: "upgradeSteps sys m n (tempDirOf n) (clock_ms sys (world s)) s = (x, s1)"
    by (cases "upgradeSteps sys m n (tempDirOf n) (clock_ms sys (world s)) s")
  show ?thesis
  proof (cases x)
    case (Inl e)
    with st show ?thesis by (simp add: upgradeModule_doc_fst [OF Some])
  next
    case (Inr res)
    with st upgradeSteps_result [of sys m n "tempDirOf n" "clock_ms sys (world s)" s res s1]
    show ?thesis by (simp add: upgradeModule_doc_fst [OF Some])
  qed
qed

lemma batchLoop_doc_returns:
  "\<exists>new. fst (batchLoop_doc sys modules ms rs0 s) = Inr (rs0 @ new)
           \<and> map module new = map name ms"
proof (induction ms arbitrary: rs0 s)
  case Nil
  then show ?case by (simp add: ret_def)
next
  case (Cons m ms)
  obtain r where r: "fst (upgradeModule_doc sys modules (name m) s) = Inr r" "module r = name m"
    using upgradeModule_doc_returns by blast
  then obtain s1 where u: "upgradeModule_doc sys modules (name m) s = (Inr r, s1)"
    by (cases "upgradeModule_doc sys modules (name m) s") simp
  from Cons.IH [of "rs0 @ [r]" s1] obtain new where
    "fst (batchLoop_doc sys modules ms (rs0 @ [r]) s1) = Inr ((rs0 @ [r]) @ new)"
    "map module new = map name ms"
    by blast
  with r(2) u show ?case
    by (intro exI [of _ "r # new"]) (simp add: andThen_def)
qed

text \<open>
  C1 (as the code has it). In both services of \<^verbatim>\<open>upgrade.service.ts\<close>, \<^verbatim>\<open>batchUpgrade\<close>
  returns a list only when every selected module was upgraded: the list then has one
  result per selected configured module, in the configured order, each with
  \<open>success = True\<close>. When the upgrade of a selected module throws, after the modules
  \<open>pre\<close> before it succeeded, \<^verbatim>\<open>batchUpgrade\<close> throws that error in the state that upgrade
  ended in: the results collected so far are dropped and the modules \<open>post\<close> after it are
  not attempted. With the \<^verbatim>\<open>upgradeModule\<close> of the design notes, which never throws, the
  batch always returns one result per selected module in the configured order.
\<close>

theorem batchUpgrade_outcome:
  "(batchUpgrade sys modules names s = (Inr rs, s')
      \<or> batchUpgrade_nodefs sys modules names s = (Inr rs, s') \<longrightarrow>
      map module rs = map name (modulesToUpgrade modules names) \<and> (\<forall>r\<in>set rs. success r))
   \<and> (modulesToUpgrade modules names = pre @ m # post \<longrightarrow>
        batchLoop sys modules pre [] s = (Inr rs1, s1) \<longrightarrow>
        upgradeModule sys modules (name m) s1 = (Inl e, s2) \<longrightarrow>
        batchUpgrade sys modules names s = (Inl e, s2))
   \<and> (modulesToUpgrade modules names = pre @ m # post \<longrightarrow>
        batchLoop_nodefs sys modules pre [] s = (Inr rs1, s1) \<longrightarrow>
        upgradeModule_nodefs sys modules (name m) s1 = (Inl e, s2) \<longrightarrow>
        batchUpgrade_nodefs sys modules names s = (Inl e, s2))
   \<and> (\<exists>rs. fst (batchUpgrade_doc sys modules names s) = Inr rs
            \<and> map module rs = map name (modulesToUpgrade modules names))"
proof (intro conjI impI)
  assume "batchUpgrade sys modules names s = (Inr rs, s')
      \<or> batchUpgrade_nodefs sys modules names s = (Inr rs, s')"
  then have "\<exists>new. rs = [] @ new \<and> map module new = map name (modulesToUpgrade modules names)
               \<and> (\<forall>r\<in>set new. success r)"
    unfolding batchUpgrade_def batchUpgrade_nodefs_def
    using batchLoop_results [OF modulesToUpgrade_subset]
      batchLoop_nodefs_results [OF modulesToUpgrade_subset]
    by blast
  then show "map module rs = map name (modulesToUpgrade modules names)"
    and "\<forall>r\<in>set rs. success r"
    by auto
next
  assume "modulesToUpgrade modules names = pre @ m # post"
    and "batchLoop sys modules pre [] s = (Inr rs1, s1)"
    and "upgradeModule sys modules (name m) s1 = (Inl e, s2)"
  then show "batchUpgrade sys modules names s = (Inl e, s2)"
    by (simp add: batchUpgrade_def batchLoop_append andThen_fails)
next
  assume "modulesToUpgrade modules names = pre @ m # post"
    and "batchLoop_nodefs sys modules pre [] s = (Inr rs1, s1)"
    and "upgradeModule_nodefs sys modules (name m) s1 = (Inl e, s2)"
  then show "batchUpgrade_nodefs sys modules names s = (Inl e, s2)"
    by (simp add: batchUpgrade_nodefs_def batchLoop_nodefs_append andThen_fails)
next
  show "\<exists>rs. fst (batchUpgrade_doc sys modules names s) = Inr rs
            \<and> map module rs = map name (modulesToUpgrade modules names)"
    unfolding batchUpgrade_doc_def
    using batchLoop_doc_returns [of sys modules "modulesToUpgrade modules names" "[]" s]
    by simp
qed

theorem batchUpgrade_aborts_counterexample:
  "map name (modulesToUpgrade abc None) = [''a'', ''b'', ''c'']
   \<and> fst (batchUpgrade (simSys cloneFails allGood) abc None (start [])) =
       Inl (SysError ''exit 128'')
   \<and> LogStart ''c'' \<notin> set (logs (snd (batchUpgrade (simSys cloneFails allGood) abc None (start []))))
   \<and> fst (batchUpgrade_nodefs (simSys cloneFails allGood) abc None (start [])) =
       Inl (SysError ''exit 128'')
   \<and> LogStart ''c''
       \<notin> set (logs (snd (batchUpgrade_nodefs (simSys cloneFails allGood) abc None (start []))))"
  by code_simp

theorem batchUpgrade_outcome_witness:
  "modulesToUpgrade abc None = [mk ''a'' Backend] @ mk ''b'' Backend # [mk ''c'' Backend]
   \<and> batchUpgrade (simSys cloneFails allGood) abc None (start []) =
       (Inl (SysError ''exit 128''),
        snd (upgradeModule (simSys cloneFails allGood) abc (name (mk ''b'' Backend))
               (snd (batchLoop (simSys cloneFails allGood) abc [mk ''a'' Backend] []
                  (start [])))))
   \<and> batchUpgrade_nodefs (simSys cloneFails allGood) abc None (start []) =
       (Inl (SysError ''exit 128''),
        snd (upgradeModule_nodefs (simSys cloneFails allGood) abc (name (mk ''b'' Backend))
               (snd (batchLoop_nodefs (simSys cloneFails allGood) abc [mk ''a'' Backend] []
                  (start [])))))
   \<and> fst (batchUpgrade (simSys cloneFails allGood) abc
          (Some [''c'', ''a'', ''zz'', ''a'']) (start [])) =
       Inr [\<lparr>success = True, module = ''a'', message = MsgUpgraded [],
              timestamp = ''2024-01-01T00:00:00.000Z'', version = Some []\<rparr>,
            \<lparr>success = True, module = ''c'', message = MsgUpgraded [],
              timestamp = ''2024-01-01T00:00:00.000Z'', version = Some []\<rparr>]
   \<and> map name (modulesToUpgrade abc (Some [''c'', ''a'', ''zz'', ''a''])) = [''a'', ''c'']"
proof -
  let ?sys = "simSys cloneFails allGood"
  let ?ra = "\<lparr>success = True, module = ''a'', message = MsgUpgraded [],
              timestamp = ''2024-01-01T00:00:00.000Z'', version = Some []\<rparr>"
  let ?rc = "\<lparr>success = True, module = ''c'', message = MsgUpgraded [],
              timestamp = ''2024-01-01T00:00:00.000Z'', version = Some []\<rparr>"
  let ?e = "SysError ''exit 128''"
  let ?s1 = "snd (batchLoop ?sys abc [mk ''a'' Backend] [] (start []))"
  let ?t1 = "snd (batchLoop_nodefs ?sys abc [mk ''a'' Backend] [] (start []))"
  have sel: "modulesToUpgrade abc None = [mk ''a'' Backend] @ mk ''b'' Backend # [mk ''c'' Backend]"
    by (simp add: modulesToUpgrade_def abc_def)
  have "fst (batchLoop ?sys abc [mk ''a'' Backend] [] (start [])) = Inr [?ra]"
    by code_simp
  then have p: "batchLoop ?sys abc [mk ''a'' Backend] [] (start []) = (Inr [?ra], ?s1)"
    by (rule pair_fstI)
  have "fst (upgradeModule ?sys abc (name (mk ''b'' Backend)) ?s1) = Inl ?e"
    by code_simp
  then have u: "upgradeModule ?sys abc (name (mk ''b'' Backend)) ?s1 =
      (Inl ?e, snd (upgradeModule ?sys abc (name (mk ''b'' Backend)) ?s1))"
    by (rule pair_fstI)
  have "fst (batchLoop_nodefs ?sys abc [mk ''a'' Backend] [] (start [])) = Inr [?ra]"
    by code_simp
  then have pn: "batchLoop_nodefs ?sys abc [mk ''a'' Backend] [] (start []) = (Inr [?ra], ?t1)"
    by (rule pair_fstI)
  have "fst (upgradeModule_nodefs ?sys abc (name (mk ''b'' Backend)) ?t1) = Inl ?e"
    by code_simp
  then have un: "upgradeModule_nodefs ?sys abc (name (mk ''b'' Backend)) ?t1 =
      (Inl ?e, snd (upgradeModule_nodefs ?sys abc (name (mk ''b'' Backend)) ?t1))"
    by (rule pair_fstI)
  have r3: "fst (batchUpgrade ?sys abc (Some [''c'', ''a'', ''zz'', ''a'']) (start [])) = Inr [?ra, ?rc]"
    by code_simp
  then have ok: "batchUpgrade ?sys abc (Some [''c'', ''a'', ''zz'', ''a'']) (start []) =
      (Inr [?ra, ?rc], snd (batchUpgrade ?sys abc (Some [''c'', ''a'', ''zz'', ''a'']) (start [])))"
    by (rule pair_fstI)
  note t = batchUpgrade_outcome [of ?sys abc _ "start []"]
  from t [of None _ _ "[mk ''a'' Backend]" "mk ''b'' Backend" "[mk ''c'' Backend]"
      "[?ra]" ?s1 ?e "snd (upgradeModule ?sys abc (name (mk ''b'' Backend)) ?s1)"] sel p u
  have f1: "batchUpgrade ?sys abc None (start []) =
      (Inl ?e, snd (upgradeModule ?sys abc (name (mk ''b'' Backend)) ?s1))"
    by blast
  from t [of None _ _ "[mk ''a'' Backend]" "mk ''b'' Backend" "[mk ''c'' Backend]"
      "[?ra]" ?t1 ?e "snd (upgradeModule_nodefs ?sys abc (name (mk ''b'' Backend)) ?t1)"] sel pn un
  have f2: "batchUpgrade_nodefs ?sys abc None (start []) =
      (Inl ?e, snd (upgradeModule_nodefs ?sys abc (name (mk ''b'' Backend)) ?t1))"
    by blast
  from t [of "Some [''c'', ''a'', ''zz'', ''a'']" "[?ra, ?rc]"
      "snd (batchUpgrade ?sys abc (Some [''c'', ''a'', ''zz'', ''a'']) (start []))"] ok
  have "map module [?ra, ?rc] = map name (modulesToUpgrade abc (Some [''c'', ''a'', ''zz'', ''a'']))"
    by blast
  then have f3: "map name (modulesToUpgrade abc (Some [''c'', ''a'', ''zz'', ''a''])) = [''a'', ''c'']"
    by simp
  from sel f1 f2 r3 f3 show ?thesis by blast
qed

section \<open>Names that are not configured, names listed twice\<close>






section \<open>Finding the build output\<close>

lemma path_normalize_nonempty: "path_normalize p \<noteq> []"
  by (simp add: path_normalize_def Let_def)

lemma path_join_nonempty: "path_join args \<noteq> []"
  by (simp add: path_join_def Let_def path_normalize_nonempty)

lemma tempDirOf_nonempty: "tempDirOf n \<noteq> []"
  by (simp add: tempDirOf_def path_join_nonempty)

lemma probed_Nil [simp]: "probed ex [] = []"
  by (simp add: probed_def)

lemma probed_Cons [simp]: "probed ex (d # ds) = d # (if ex d then [] else probed ex ds)"
  by (simp add: probed_def)

lemma probeDirs_run:
  "probeDirs sys src ds s =
     (Inr (firstOf (\<lambda>d. fx_pathExists sys (path_join [src, d]) (world s)) src ds),
      s\<lparr>calls := calls s @ map (\<lambda>d. CPathExists (path_join [src, d]))
                 (probed (\<lambda>d. fx_pathExists sys (path_join [src, d]) (world s)) ds)\<rparr>)"
proof (induction ds arbitrary: s)
  case Nil
  show ?case by (simp add: ret_def firstOf_def)
next
  case (Cons d ds)
  show ?case
    by (simp add: andThen_def pathExists_def observe_def ret_def firstOf_def Cons.IH)
qed

lemma probeDirs_nodefs_run:
  "probeDirs_nodefs sys src ds s =
     (Inr (firstOf (\<lambda>d. \<not> isl (nf_access sys (path_join [src, d]) (world s))) src ds),
      s\<lparr>calls := calls s @ map (\<lambda>d. CAccess (path_join [src, d]))
                 (probed (\<lambda>d. \<not> isl (nf_access sys (path_join [src, d]) (world s))) ds)\<rparr>)"
proof (induction ds arbitrary: s)
  case Nil
  show ?case by (simp add: ret_def firstOf_def)
next
  case (Cons d ds)
  show ?case
    by (cases "nf_access sys (path_join [src, d]) (world s)")
       (simp_all add: andThen_def tryCatch_def access_def attempt_def ret_def firstOf_def Cons.IH)
qed

lemma firstOf_empty_iff: "firstOf ex src ds = [] \<longleftrightarrow> (\<forall>d\<in>set ds. \<not> ex d)"
proof (cases "find ex ds")
  case None
  then have "\<forall>d\<in>set ds. \<not> ex d" by (auto simp: find_None_iff)
  with None show ?thesis by (simp add: firstOf_def)
next
  case (Some d)
  then have "find ex ds \<noteq> None" by simp
  then have "\<exists>x\<in>set ds. ex x" by (auto simp: find_None_iff)
  with Some show ?thesis by (auto simp: firstOf_def path_join_nonempty)
qed

lemma findBuildOutput_front:
  assumes "ty = Frontend \<or> ty = Microfrontend"
  shows "findBuildOutput sys src ty s =
     (Inr (firstOf (\<lambda>d. fx_pathExists sys (path_join [src, d]) (world s)) src possibleDirs),
      s\<lparr>calls := calls s @ map (\<lambda>d. CPathExists (path_join [src, d]))
                 (probed (\<lambda>d. fx_pathExists sys (path_join [src, d]) (world s)) possibleDirs)\<rparr>)"
  using assms by (simp add: findBuildOutput_def probeDirs_run)

lemma findBuildOutput_nodefs_front:
  assumes "ty = Frontend \<or> ty = Microfrontend"
  shows "findBuildOutput_nodefs sys src ty s =
     (Inr (firstOf (\<lambda>d. \<not> isl (nf_access sys (path_join [src, d]) (world s))) src possibleDirs),
      s\<lparr>calls := calls s @ map (\<lambda>d. CAccess (path_join [src, d]))
                 (probed (\<lambda>d. \<not> isl (nf_access sys (path_join [src, d]) (world s)))
                    possibleDirs)\<rparr>)"
  using assms by (simp add: findBuildOutput_nodefs_def probeDirs_nodefs_run)

lemma findBuildOutput_back:
  "findBuildOutput sys src Backend s =
     (Inr (if fx_pathExists sys (path_join [src, ''dist'']) (world s)
           then path_join [src, ''dist''] else src),
      s\<lparr>calls := calls s @ [CPathExists (path_join [src, ''dist''])]\<rparr>)"
  by (simp add: findBuildOutput_def andThen_def pathExists_def observe_def ret_def)

lemma findBuildOutput_nodefs_back:
  "findBuildOutput_nodefs sys src Backend s =
     (Inr (if isl (nf_access sys (path_join [src, ''dist'']) (world s))
           then src else path_join [src, ''dist'']),
      s\<lparr>calls := calls s @ [CAccess (path_join [src, ''dist''])]\<rparr>)"
  by (cases "nf_access sys (path_join [src, ''dist'']) (world s)")
     (simp_all add: findBuildOutput_nodefs_def andThen_def tryCatch_def access_def attempt_def
       ret_def)

text \<open>
  C8. For a frontend or microfrontend module both texts of \<^verbatim>\<open>deployBuild\<close> probe
  \<^verbatim>\<open>dist\<close>, \<^verbatim>\<open>build\<close>, \<^verbatim>\<open>out\<close>, \<^verbatim>\<open>public\<close> under the workspace in this order and stop at
  the first that exists (fs-extra: \<^verbatim>\<open>pathExists\<close> says so; node:fs: \<^verbatim>\<open>access\<close> does not
  throw); that directory is the build output and is copied into the target. When none
  exists the step throws the output-not-found error and has only probed. For a backend
  module the output is \<^verbatim>\<open>dist\<close> when it exists and the workspace itself otherwise; the
  workspace \<^verbatim>\<open>upgradeModule\<close> passes is never the empty path, so the step goes on to
  replace the target and cannot fail in finding the output.
\<close>

theorem deployBuild_output_discovery:
  "possibleDirs = [''dist'', ''build'', ''out'', ''public'']
   \<and> (ty = Frontend \<or> ty = Microfrontend \<longrightarrow>
        deployBuild sys src tgt ty s =
          (if \<forall>d\<in>set possibleDirs. \<not> fx_pathExists sys (path_join [src, d]) (world s)
           then throw OutputNotFound
           else replaceTarget sys
                  (firstOf (\<lambda>d. fx_pathExists sys (path_join [src, d]) (world s)) src
                     possibleDirs) tgt)
            (s\<lparr>calls := calls s @ map (\<lambda>d. CPathExists (path_join [src, d]))
                 (probed (\<lambda>d. fx_pathExists sys (path_join [src, d]) (world s))
                    possibleDirs)\<rparr>)
      \<and> deployBuild_nodefs sys src tgt ty s =
          (if \<forall>d\<in>set possibleDirs. isl (nf_access sys (path_join [src, d]) (world s))
           then throw OutputNotFound
           else replaceTarget_nodefs sys
                  (firstOf (\<lambda>d. \<not> isl (nf_access sys (path_join [src, d]) (world s))) src
                     possibleDirs) tgt)
            (s\<lparr>calls := calls s @ map (\<lambda>d. CAccess (path_join [src, d]))
                 (probed (\<lambda>d. \<not> isl (nf_access sys (path_join [src, d]) (world s)))
                    possibleDirs)\<rparr>))
   \<and> deployBuild sys (tempDirOf n) tgt Backend s =
        replaceTarget sys
          (if fx_pathExists sys (path_join [tempDirOf n, ''dist'']) (world s)
           then path_join [tempDirOf n, ''dist''] else tempDirOf n)
          tgt (s\<lparr>calls := calls s @ [CPathExists (path_join [tempDirOf n, ''dist''])]\<rparr>)
   \<and> deployBuild_nodefs sys (tempDirOf n) tgt Backend s =
        replaceTarget_nodefs sys
          (if isl (nf_access sys (path_join [tempDirOf n, ''dist'']) (world s))
           then tempDirOf n else path_join [tempDirOf n, ''dist''])
          tgt (s\<lparr>calls := calls s @ [CAccess (path_join [tempDirOf n, ''dist''])]\<rparr>)"
proof -
  have f: "ty = Frontend \<or> ty = Microfrontend \<Longrightarrow>
        deployBuild sys src tgt ty s =
          (if \<forall>d\<in>set possibleDirs. \<not> fx_pathExists sys (path_join [src, d]) (world s)
           then throw OutputNotFound
           else replaceTarget sys
                  (firstOf (\<lambda>d. fx_pathExists sys (path_join [src, d]) (world s)) src
                     possibleDirs) tgt)
            (s\<lparr>calls := calls s @ map (\<lambda>d. CPathExists (path_join [src, d]))
                 (probed (\<lambda>d. fx_pathExists sys (path_join [src, d]) (world s))
                    possibleDirs)\<rparr>)"
    by (simp add: deployBuild_def andThen_def findBuildOutput_front firstOf_empty_iff)
  have g: "ty = Frontend \<or> ty = Microfrontend \<Longrightarrow>
        deployBuild_nodefs sys src tgt ty s =
          (if \<forall>d\<in>set possibleDirs. isl (nf_access sys (path_join [src, d]) (world s))
           then throw OutputNotFound
           else replaceTarget_nodefs sys
                  (firstOf (\<lambda>d. \<not> isl (nf_access sys (path_join [src, d]) (world s))) src
                     possibleDirs) tgt)
            (s\<lparr>calls := calls s @ map (\<lambda>d. CAccess (path_join [src, d]))
                 (probed (\<lambda>d. \<not> isl (nf_access sys (path_join [src, d]) (world s)))
                    possibleDirs)\<rparr>)"
    by (simp add: deployBuild_nodefs_def andThen_def findBuildOutput_nodefs_front
        firstOf_empty_iff)
  have b: "deployBuild sys (tempDirOf n) tgt Backend s =
        replaceTarget sys
          (if fx_pathExists sys (path_join [tempDirOf n, ''dist'']) (world s)
           then path_join [tempDirOf n, ''dist''] else tempDirOf n)
          tgt (s\<lparr>calls := calls s @ [CPathExists (path_join [tempDirOf n, ''dist''])]\<rparr>)"
    by (simp add: deployBuild_def andThen_def findBuildOutput_back tempDirOf_nonempty
        path_join_nonempty)
  have c: "deployBuild_nodefs sys (tempDirOf n) tgt Backend s =
        replaceTarget_nodefs sys
          (if isl (nf_access sys (path_join [tempDirOf n, ''dist'']) (world s))
           then tempDirOf n else path_join [tempDirOf n, ''dist''])
          tgt (s\<lparr>calls := calls s @ [CAccess (path_join [tempDirOf n, ''dist''])]\<rparr>)"
    by (simp add: deployBuild_nodefs_def andThen_def findBuildOutput_nodefs_back
        tempDirOf_nonempty path_join_nonempty)
  from f g b c show ?thesis
    by (simp add: possibleDirs_def)
qed

theorem deployBuild_output_discovery_witness:
  "deployBuild (simSys cloneFails allGood) ''/tmp/upgrade/a'' ''/srv/a'' Frontend
       (start [''/tmp/upgrade/a/public'', ''/tmp/upgrade/a/build'']) =
     replaceTarget (simSys cloneFails allGood) ''/tmp/upgrade/a/build'' ''/srv/a''
       \<lparr>world = [''/tmp/upgrade/a/public'', ''/tmp/upgrade/a/build''], logs = [],
        calls = [CPathExists ''/tmp/upgrade/a/dist'', CPathExists ''/tmp/upgrade/a/build'']\<rparr>
   \<and> deployBuild_nodefs (simSys cloneFails allGood) ''/tmp/upgrade/a'' ''/srv/a'' Microfrontend
       (start [''/tmp/upgrade/a/src'']) =
     (Inl OutputNotFound,
       \<lparr>world = [''/tmp/upgrade/a/src''], logs = [],
        calls = [CAccess ''/tmp/upgrade/a/dist'', CAccess ''/tmp/upgrade/a/build'',
                 CAccess ''/tmp/upgrade/a/out'', CAccess ''/tmp/upgrade/a/public'']\<rparr>)"
proof -
  let ?sys = "simSys cloneFails allGood"
  let ?s = "start [''/tmp/upgrade/a/public'', ''/tmp/upgrade/a/build'']"
  let ?t = "start [''/tmp/upgrade/a/src'']"
  let ?ex = "\<lambda>d. fx_pathExists ?sys (path_join [''/tmp/upgrade/a'', d]) (world ?s)"
  let ?ac = "\<lambda>d. \<not> isl (nf_access ?sys (path_join [''/tmp/upgrade/a'', d]) (world ?t))"
  have e1: "(\<forall>d\<in>set possibleDirs. \<not> ?ex d) = False"
    by code_simp
  have e2: "firstOf ?ex ''/tmp/upgrade/a'' possibleDirs = ''/tmp/upgrade/a/build''"
    by code_simp
  have e3: "?s\<lparr>calls := calls ?s @ map (\<lambda>d. CPathExists (path_join [''/tmp/upgrade/a'', d]))
                 (probed ?ex possibleDirs)\<rparr> =
      \<lparr>world = [''/tmp/upgrade/a/public'', ''/tmp/upgrade/a/build''], logs = [],
        calls = [CPathExists ''/tmp/upgrade/a/dist'', CPathExists ''/tmp/upgrade/a/build'']\<rparr>"
    by (simp add: start_def possibleDirs_def simSys_def path_join_def path_normalize_def)
  have n1: "(\<forall>d\<in>set possibleDirs.
               isl (nf_access ?sys (path_join [''/tmp/upgrade/a'', d]) (world ?t))) = True"
    by code_simp
  have n3: "?t\<lparr>calls := calls ?t @ map (\<lambda>d. CAccess (path_join [''/tmp/upgrade/a'', d]))
                 (probed ?ac possibleDirs)\<rparr> =
      \<lparr>world = [''/tmp/upgrade/a/src''], logs = [],
        calls = [CAccess ''/tmp/upgrade/a/dist'', CAccess ''/tmp/upgrade/a/build'',
                 CAccess ''/tmp/upgrade/a/out'', CAccess ''/tmp/upgrade/a/public'']\<rparr>"
    by (simp add: start_def possibleDirs_def simSys_def path_join_def path_normalize_def)
  from deployBuild_output_discovery [of Frontend ?sys "''/tmp/upgrade/a''" "''/srv/a''" ?s]
  have a: "deployBuild ?sys ''/tmp/upgrade/a'' ''/srv/a'' Frontend ?s =
     replaceTarget ?sys ''/tmp/upgrade/a/build'' ''/srv/a''
       \<lparr>world = [''/tmp/upgrade/a/public'', ''/tmp/upgrade/a/build''], logs = [],
        calls = [CPathExists ''/tmp/upgrade/a/dist'', CPathExists ''/tmp/upgrade/a/build'']\<rparr>"
    unfolding e1 e2 e3 by simp
  from deployBuild_output_discovery [of Microfrontend ?sys "''/tmp/upgrade/a''" "''/srv/a''" ?t]
  have b: "deployBuild_nodefs ?sys ''/tmp/upgrade/a'' ''/srv/a'' Microfrontend ?t =
     (Inl OutputNotFound,
       \<lparr>world = [''/tmp/upgrade/a/src''], logs = [],
        calls = [CAccess ''/tmp/upgrade/a/dist'', CAccess ''/tmp/upgrade/a/build'',
                 CAccess ''/tmp/upgrade/a/out'', CAccess ''/tmp/upgrade/a/public'']\<rparr>)"
    unfolding n1 n3 by (simp add: throw_def)
  from a b show ?thesis by blast
qed

section \<open>The built version\<close>






section \<open>Dependency install and backup\<close>

lemma npmInstall_run:
  "npmInstall sys dir s =
     (if fx_pathExists sys (path_join [dir, ''package.json'']) (world s)
      then (case sys_exec sys (''cd '' @ dir @ '' && npm ci --no-audit --no-fund'') None (world s) of
              (r, w) \<Rightarrow>
                (map_sum id (\<lambda>_. ()) r,
                 s\<lparr>world := w,
                   calls := calls s @ [CPathExists (path_join [dir, ''package.json'']),
                     CExec (''cd '' @ dir @ '' && npm ci --no-audit --no-fund'') None]\<rparr>))
      else (Inr (), s\<lparr>calls := calls s @ [CPathExists (path_join [dir, ''package.json''])]\<rparr>))"
  by (simp add: npmInstall_def Let_def andThen_def pathExists_def observe_def execAsync_def perform_def
      ret_def split: prod.splits sum.splits)

lemma npmInstall_nodefs_returns: "fst (npmInstall_nodefs sys dir s) = Inr ()"
  by (simp add: npmInstall_nodefs_def Let_def tryCatch_def andThen_def access_def attempt_def
      execAsync_def perform_def ret_def split: prod.splits sum.splits)

text \<open>
  C5. The fs-extra service does what the claim says (\<open>npmInstall_run\<close>: without a
  manifest only the probe is made; with one, the result of \<^verbatim>\<open>npm ci\<close> is the result of the
  step). The node:fs service does not: its \<^verbatim>\<open>catch\<close> block, written for the missing
  manifest, also catches the failure of \<^verbatim>\<open>npm ci\<close>, so the step never fails. On a
  workspace with a manifest where \<^verbatim>\<open>npm ci\<close> exits with an error, the step of the node:fs
  service returns normally and the upgrade goes on to report success, where the fs-extra
  service throws the error of \<^verbatim>\<open>npm ci\<close>.
\<close>

theorem npmInstall_nodefs_swallows_failure:
  "fst (npmInstall_nodefs sys dir s) = Inr ()
   \<and> fst (sys_exec (simSys npmFails allGood) ''cd /tmp/upgrade/a && npm ci --no-audit --no-fund''
            None [''/tmp/upgrade/a/package.json'']) = Inl (SysError ''npm ERR! exit 1'')
   \<and> fst (npmInstall_nodefs (simSys npmFails allGood) ''/tmp/upgrade/a''
            (start [''/tmp/upgrade/a/package.json''])) = Inr ()
   \<and> fst (npmInstall (simSys npmFails allGood) ''/tmp/upgrade/a''
            (start [''/tmp/upgrade/a/package.json''])) = Inl (SysError ''npm ERR! exit 1'')
   \<and> fst (upgradeModule_nodefs (simSys npmFails allGood) abc ''a'' (start [])) =
       Inr \<lparr>success = True, module = ''a'', message = MsgUpgraded ''1.0.0'',
            timestamp = ''2024-01-01T00:00:00.000Z'', version = Some ''1.0.0''\<rparr>
   \<and> fst (upgradeModule (simSys npmFails allGood) abc ''a'' (start [])) =
       Inl (SysError ''npm ERR! exit 1'')"
proof -
  have "fst (sys_exec (simSys npmFails allGood) ''cd /tmp/upgrade/a && npm ci --no-audit --no-fund''
            None [''/tmp/upgrade/a/package.json'']) = Inl (SysError ''npm ERR! exit 1'')
   \<and> fst (npmInstall_nodefs (simSys npmFails allGood) ''/tmp/upgrade/a''
            (start [''/tmp/upgrade/a/package.json''])) = Inr ()
   \<and> fst (npmInstall (simSys npmFails allGood) ''/tmp/upgrade/a''
            (start [''/tmp/upgrade/a/package.json''])) = Inl (SysError ''npm ERR! exit 1'')
   \<and> fst (upgradeModule_nodefs (simSys npmFails allGood) abc ''a'' (start [])) =
       Inr \<lparr>success = True, module = ''a'', message = MsgUpgraded ''1.0.0'',
            timestamp = ''2024-01-01T00:00:00.000Z'', version = Some ''1.0.0''\<rparr>
   \<and> fst (upgradeModule (simSys npmFails allGood) abc ''a'' (start [])) =
       Inl (SysError ''npm ERR! exit 1'')"
    by code_simp
  then show ?thesis
    using npmInstall_nodefs_returns [of sys dir s] by blast
qed

lemma backupCurrent_run:
  "backupCurrent sys dp n s =
     (if fx_pathExists sys dp (world s)
      then (case fx_copy sys dp
                   (path_join [''/var/www/backups'', n, replace_colons (clock_iso sys (world s))])
                   (world s) of
              (r, w) \<Rightarrow>
                (r, s\<lparr>world := w,
                      calls := calls s @ [CPathExists dp,
                        CCopy dp (path_join [''/var/www/backups'', n,
                                    replace_colons (clock_iso sys (world s))])]\<rparr>))
      else (Inr (), s\<lparr>calls := calls s @ [CPathExists dp]\<rparr>))"
  by (simp add: backupCurrent_def andThen_def pathExists_def observe_def copy_def perform_def
      now_iso_def ret_def split: prod.splits sum.splits)

lemma backupCurrent_nodefs_returns: "fst (backupCurrent_nodefs sys dp n s) = Inr ()"
  by (simp add: backupCurrent_nodefs_def tryCatch_def andThen_def access_def attempt_def
      mkdir_def cp_def perform_def now_iso_def ret_def split: prod.splits sum.splits)

text \<open>
  When the backup of the fs-extra service throws, the steps throw the same error in
  the state the backup ended in: nothing of the deployment is run.
\<close>

lemma upgradeSteps_backup_fatal:
  assumes "andThen (logger (LogStart n)) (\<lambda>_.
           andThen (ensureDir sys tmp) (\<lambda>_.
           andThen (gitCloneOrPull sys m tmp) (\<lambda>_.
           andThen (npmInstall sys tmp) (\<lambda>_. buildProject sys tmp (buildCommand m))))) s
             = (Inr (), s4)"
      and "backupCurrent sys (deployPath m) n s4 = (Inl e, s5)"
  shows "upgradeSteps sys m n tmp t0 s = (Inl e, s5)"
  using assms unfolding upgradeSteps_def
  by (auto simp: andThen_Inr_iff) (simp add: andThen_def)

text \<open>
  C4. The fs-extra service does what the claim says (\<open>backupCurrent_run\<close>: without a
  deploy path only the probe is made; with one, the result of the copy is the result of
  the step, and \<open>upgradeSteps_backup_fatal\<close>: a failed backup ends the steps). The node:fs
  service does not: its \<^verbatim>\<open>catch\<close> block, written for the missing deploy path, also
  catches the failure of \<^verbatim>\<open>mkdir\<close> and of the copy, so the step never fails. With an
  existing deploy path and a backup root that cannot be written, the node:fs service
  removes the deploy path, copies the new build into it and reports success with no
  backup made, where the fs-extra service throws the error of the copy and makes no call
  on the deploy path but the probe.
\<close>

theorem backupCurrent_nodefs_swallows_failure:
  "fst (backupCurrent_nodefs sys dp n s) = Inr ()
   \<and> fst (upgradeModule_nodefs (simSys cloneFails backupDiskFull) abc ''a'' (start [''/srv/a''])) =
       Inr \<lparr>success = True, module = ''a'', message = MsgUpgraded [],
            timestamp = ''2024-01-01T00:00:00.000Z'', version = Some []\<rparr>
   \<and> calls (snd (upgradeModule_nodefs (simSys cloneFails backupDiskFull) abc ''a''
         (start [''/srv/a'']))) =
       [CMkdir ''/tmp/upgrade/a'', CExistsSync ''/tmp/upgrade/a/.git'',
        CExec ''git clone --branch main https://github.com/o/a.git /tmp/upgrade/a'' None,
        CAccess ''/tmp/upgrade/a/package.json'',
        CExec ''cd /tmp/upgrade/a && npm run build'' (Some 10485760),
        CAccess ''/srv/a'', CMkdir ''/var/www/backups/a'',
        CCp ''/srv/a'' ''/var/www/backups/a/2024-01-01T00-00-00.000Z'',
        CAccess ''/tmp/upgrade/a/dist'', CAccess ''/srv/a'', CRm ''/srv/a'',
        CMkdir ''/srv/a'', CCp ''/tmp/upgrade/a'' ''/srv/a'',
        CAccess ''/tmp/upgrade/a/package.json'',
        CExec (gitVersionCommand ''/tmp/upgrade/a'') None,
        CRm ''/tmp/upgrade/a'']
   \<and> fst (nf_cp (simSys cloneFails backupDiskFull) ''/srv/a''
            ''/var/www/backups/a/2024-01-01T00-00-00.000Z'' [''/srv/a'']) =
       Inl (SysError ''ENOSPC'')
   \<and> fst (upgradeModule (simSys cloneFails backupDiskFull) abc ''a'' (start [''/srv/a''])) =
       Inl (SysError ''ENOSPC'')
   \<and> calls (snd (upgradeModule (simSys cloneFails backupDiskFull) abc ''a''
         (start [''/srv/a'']))) =
       [CEnsureDir ''/tmp/upgrade/a'', CPathExists ''/tmp/upgrade/a/.git'',
        CExec ''git clone --branch main https://github.com/o/a.git /tmp/upgrade/a'' None,
        CPathExists ''/tmp/upgrade/a/package.json'',
        CExec ''cd /tmp/upgrade/a && npm run build'' (Some 10485760),
        CPathExists ''/srv/a'',
        CCopy ''/srv/a'' ''/var/www/backups/a/2024-01-01T00-00-00.000Z'',
        CRemove ''/tmp/upgrade/a'']"
proof -
  let ?sys = "simSys cloneFails backupDiskFull"
  have a: "fst (upgradeModule_nodefs ?sys abc ''a'' (start [''/srv/a''])) =
       Inr \<lparr>success = True, module = ''a'', message = MsgUpgraded [],
            timestamp = ''2024-01-01T00:00:00.000Z'', version = Some []\<rparr>"
    by code_simp
  have b: "calls (snd (upgradeModule_nodefs ?sys abc ''a'' (start [''/srv/a'']))) =
       [CMkdir ''/tmp/upgrade/a'', CExistsSync ''/tmp/upgrade/a/.git'',
        CExec ''git clone --branch main https://github.com/o/a.git /tmp/upgrade/a'' None,
        CAccess ''/tmp/upgrade/a/package.json'',
        CExec ''cd /tmp/upgrade/a && npm run build'' (Some 10485760),
        CAccess ''/srv/a'', CMkdir ''/var/www/backups/a'',
        CCp ''/srv/a'' ''/var/www/backups/a/2024-01-01T00-00-00.000Z'',
        CAccess ''/tmp/upgrade/a/dist'', CAccess ''/srv/a'', CRm ''/srv/a'',
        CMkdir ''/srv/a'', CCp ''/tmp/upgrade/a'' ''/srv/a'',
        CAccess ''/tmp/upgrade/a/package.json'',
        CExec (gitVersionCommand ''/tmp/upgrade/a'') None,
        CRm ''/tmp/upgrade/a'']"
    by code_simp
  have c: "fst (nf_cp ?sys ''/srv/a''
            ''/var/www/backups/a/2024-01-01T00-00-00.000Z'' [''/srv/a'']) =
       Inl (SysError ''ENOSPC'')"
    by code_simp
  have d: "fst (upgradeModule ?sys abc ''a'' (start [''/srv/a''])) = Inl (SysError ''ENOSPC'')"
    by code_simp
  have e: "calls (snd (upgradeModule ?sys abc ''a'' (start [''/srv/a'']))) =
       [CEnsureDir ''/tmp/upgrade/a'', CPathExists ''/tmp/upgrade/a/.git'',
        CExec ''git clone --branch main https://github.com/o/a.git /tmp/upgrade/a'' None,
        CPathExists ''/tmp/upgrade/a/package.json'',
        CExec ''cd /tmp/upgrade/a && npm run build'' (Some 10485760),
        CPathExists ''/srv/a'',
        CCopy ''/srv/a'' ''/var/www/backups/a/2024-01-01T00-00-00.000Z'',
        CRemove ''/tmp/upgrade/a'']"
    by code_simp
  from a b c d e backupCurrent_nodefs_returns [of sys dp n s] show ?thesis
    by blast
qed

section \<open>The status report\<close>





















end
